theory Spec2Isabelle
  imports Main
begin

section \<open>JavaScript values\<close>

text \<open>
  The values the token code handles at run time. An object is a finite map from property
  names to values (a property may hold \<open>undefined\<close> and still be present). Numbers are
  the integers and \<open>NaN\<close>; fractions and infinities are outside the model (they are truthy,
  like every non-zero integer).
\<close>

datatype jsval =
    JUndefined
  | JNull
  | JBool bool
  | JNum int
  | JNaN
  | JStr string
  | JArr "jsval list"
  | JObj "string \<Rightarrow> jsval option"

type_synonym obj = "string \<Rightarrow> jsval option"

text \<open>The \<open>typeof\<close> operator.\<close>

fun typeof :: "jsval \<Rightarrow> string" where
  "typeof JUndefined = ''undefined''"
| "typeof JNull = ''object''"
| "typeof (JBool b) = ''boolean''"
| "typeof (JNum n) = ''number''"
| "typeof JNaN = ''number''"
| "typeof (JStr s) = ''string''"
| "typeof (JArr xs) = ''object''"
| "typeof (JObj m) = ''object''"

fun Array_isArray :: "jsval \<Rightarrow> bool" where
  "Array_isArray (JArr xs) = True"
| "Array_isArray v = False"

text \<open>Truthiness, as \<open>!x\<close>, \<open>x || y\<close>, \<open>x ? a : b\<close> and \<open>if (x)\<close> read it.\<close>

fun truthy :: "jsval \<Rightarrow> bool" where
  "truthy JUndefined = False"
| "truthy JNull = False"
| "truthy (JBool b) = b"
| "truthy (JNum n) = (n \<noteq> 0)"
| "truthy JNaN = False"
| "truthy (JStr s) = (s \<noteq> [])"
| "truthy (JArr xs) = True"
| "truthy (JObj m) = True"

text \<open>Reading a property of an object: \<open>undefined\<close> when the key is absent.\<close>

definition getprop :: "obj \<Rightarrow> string \<Rightarrow> jsval" where
  "getprop m k = (case m k of None \<Rightarrow> JUndefined | Some v \<Rightarrow> v)"

text \<open>Decimal rendering of an index, the property name of an array or string element.\<close>

fun index_key :: "nat \<Rightarrow> string" where
  "index_key n =
     (if n < 10 then [char_of (48 + n)]
      else index_key (n div 10) @ [char_of (48 + n mod 10)])"

text \<open>
  The own enumerable properties of a value, which \<open>Object.assign\<close> copies from its
  source: the fields of an object, the elements of an array and the characters of a
  string under their indices, nothing for the other primitives.
\<close>

fun own_props :: "jsval \<Rightarrow> obj" where
  "own_props (JObj m) = m"
| "own_props (JArr xs) = map_of (zip (map index_key [0..<length xs]) xs)"
| "own_props (JStr s) = map_of (zip (map index_key [0..<length s]) (map (\<lambda>c. JStr [c]) s))"
| "own_props v = Map.empty"

text \<open>
  \<open>Object.assign(target, source)\<close> writes the source's properties into the target and
  returns the target: the result below is both the returned object and the new content
  of the target.
\<close>

definition Object_assign :: "obj \<Rightarrow> jsval \<Rightarrow> obj" where
  "Object_assign target source = target ++ own_props source"

section \<open>Errors and outcomes\<close>

datatype error =
    TransactionOptionNotObject
  | ChildChainNoEIP1559
  | TypeError
  | Upstream jsval

text \<open>
  An operation that returns a promise either throws before returning (synchronously),
  or returns a promise that is later rejected or fulfilled.
\<close>

datatype 'a completion = Thrown error | Rejected error | Fulfilled 'a

section \<open>Collaborators\<close>

text \<open>
  The chain client of one side (\<open>BaseWeb3Client\<close>). Each asynchronous capability is given
  by the outcome of the promise it returns: \<open>Inl\<close> a rejection, \<open>Inr\<close> the value.
  \<open>settle_order\<close> is the order in time in which the four promises of one build settle,
  as positions in the array handed to \<open>Promise.all\<close> (0 the gas limit, 1 the gas price,
  2 the nonce, 3 the chain id).
\<close>

record BaseWeb3Client =
  estimateGas :: "obj \<Rightarrow> error + jsval"
  getGasPrice :: "error + jsval"
  getTransactionCount :: "jsval \<Rightarrow> string \<Rightarrow> error + jsval"
  getChainId :: "error + jsval"
  client_read :: "obj \<Rightarrow> error + jsval"
  client_write :: "obj \<Rightarrow> jsval"
  settle_order :: "nat list"

text \<open>A bound contract method (\<open>BaseContractMethod\<close>).\<close>

record BaseContractMethod =
  method_estimateGas :: "obj \<Rightarrow> error + jsval"
  method_encodeABI :: jsval
  method_address :: jsval
  method_read :: "obj \<Rightarrow> error + jsval"
  method_write :: "obj \<Rightarrow> jsval"

text \<open>
  The bridge client (\<open>Web3SideChainClient\<close>): the two chain clients, the fee-market query
  and the ABI fetch. Its \<open>config\<close> holds the two default records, which the token code
  writes to; they are part of the state below.
\<close>

record Web3SideChainClient =
  parent :: BaseWeb3Client
  child :: BaseWeb3Client
  isEIP1559Supported :: "bool \<Rightarrow> bool"
  getABI :: "jsval \<Rightarrow> jsval \<Rightarrow> error + jsval"

record IContractInitParam =
  cp_isParent :: bool
  cp_address :: jsval
  cp_name :: jsval
  cp_bridgeType :: jsval

text \<open>
  The immutable part of a token object: its constructor arguments. \<open>Number\<close> is the
  host's numeric conversion; the development holds for whatever it returns.
\<close>

record BaseToken =
  contractParam :: IContractInitParam
  client :: Web3SideChainClient
  Number :: "jsval \<Rightarrow> jsval"

text \<open>
  A bound contract, as \<open>client.getContract(address, abi)\<close> builds it. Each construction
  yields a new object; \<open>contract_ref\<close> is its identity.
\<close>

record BaseContract =
  contract_ref :: nat
  contract_address :: jsval
  contract_abi :: jsval

text \<open>
  The mutable state the token code reads and writes: the two default records of the
  client's config (\<open>config.parent.defaultConfig\<close> and \<open>config.child.defaultConfig\<close>, each
  taken to be an object), the memoized contract (\<open>contract_\<close> in the source, \<open>undefined\<close>
  until one is stored), and the number of contracts built so far, from which a new
  contract takes its identity.
\<close>

record state =
  parentDefaultConfig :: obj
  childDefaultConfig :: obj
  contract' :: "BaseContract option"
  built :: nat

text \<open>Every call the token code issues to a collaborator, in the order issued.\<close>

datatype call =
    CallLog string
  | CallIsEIP1559Supported bool
  | CallEstimateGas bool obj
  | CallMethodEstimateGas obj
  | CallGetGasPrice bool
  | CallGetTransactionCount bool jsval string
  | CallGetChainId bool
  | CallRead bool obj
  | CallWrite bool obj
  | CallMethodRead obj
  | CallMethodWrite obj
  | CallEncodeABI
  | CallGetABI jsval jsval
  | CallGetContract bool jsval jsval

section \<open>The option validator\<close>

text \<open>
  Modelled from the spec: \<open>ErrorHelper\<close> (\<open>./error_helper\<close>) is not among the sources;
  \<open>new ErrorHelper(ERROR_TYPE.TransactionOptionNotObject).throw()\<close> raises the validation
  error, named here after its error type. The validator itself is the source's
  \<open>validateTxOption_\<close> (a name cannot end in an underscore here).
\<close>

definition validateTxOption' :: "jsval \<Rightarrow> error + unit" where
  "validateTxOption' option =
     (if typeof option \<noteq> ''object'' \<or> Array_isArray option
      then Inl TransactionOptionNotObject
      else Inr ())"

section \<open>The transaction config builder\<close>

text \<open>The default record of a side, and the write \<open>Object.assign\<close> makes to it.\<close>

definition defaultConfig_of :: "bool \<Rightarrow> state \<Rightarrow> obj" where
  "defaultConfig_of isParent s =
     (if isParent then parentDefaultConfig s else childDefaultConfig s)"

definition set_defaultConfig :: "bool \<Rightarrow> obj \<Rightarrow> state \<Rightarrow> state" where
  "set_defaultConfig isParent c s =
     (if isParent then s\<lparr>parentDefaultConfig := c\<rparr> else s\<lparr>childDefaultConfig := c\<rparr>)"

text \<open>The local \<open>estimateGas\<close>: through the method when there is one, else the client.\<close>

definition estimateGas_of ::
  "BaseWeb3Client \<Rightarrow> BaseContractMethod option \<Rightarrow> bool \<Rightarrow> obj \<Rightarrow> (error + jsval) \<times> call list"
where
  "estimateGas_of cl meth isParent config =
     (case meth of
        Some m \<Rightarrow> (method_estimateGas m config, [CallMethodEstimateGas config])
      | None \<Rightarrow> (estimateGas cl config, [CallEstimateGas isParent config]))"

text \<open>
  \<open>Promise.all\<close> over the four entries: fulfilled with the four values when all are,
  rejected otherwise, with the rejection that settles first. \<open>order\<close> lists the entries
  in the order they settle; an entry it does not list settles after the listed ones, in
  array order.
\<close>

fun rejection_at :: "(error + jsval) list \<Rightarrow> nat \<Rightarrow> error option" where
  "rejection_at es i =
     (if i < length es then (case es ! i of Inl e \<Rightarrow> Some e | Inr v \<Rightarrow> None) else None)"

definition Promise_all4 ::
  "nat list \<Rightarrow> (error + jsval) \<Rightarrow> (error + jsval) \<Rightarrow> (error + jsval) \<Rightarrow> (error + jsval)
     \<Rightarrow> error + (jsval \<times> jsval \<times> jsval \<times> jsval)"
where
  "Promise_all4 order a b c d =
     (case List.map_filter (rejection_at [a, b, c, d]) order of
        e # es \<Rightarrow> Inl e
      | [] \<Rightarrow>
         (case a of Inl e \<Rightarrow> Inl e | Inr w \<Rightarrow>
          case b of Inl e \<Rightarrow> Inl e | Inr x \<Rightarrow>
          case c of Inl e \<Rightarrow> Inl e | Inr y \<Rightarrow>
          case d of Inl e \<Rightarrow> Inl e | Inr z \<Rightarrow> Inr (w, x, y, z)))"

text \<open>
  The four entries of the array, each with the call it issues: a field that is truthy in
  the merged config is used as it is, any other is asked of the network.
\<close>

definition resolve_gasLimit ::
  "BaseWeb3Client \<Rightarrow> BaseContractMethod option \<Rightarrow> bool \<Rightarrow> obj \<Rightarrow> (error + jsval) \<times> call list"
where
  "resolve_gasLimit cl meth isParent txConfig =
     (if \<not> truthy (getprop txConfig ''gasLimit'')
      then estimateGas_of cl meth isParent
             [''from'' \<mapsto> getprop txConfig ''from'', ''value'' \<mapsto> getprop txConfig ''value'']
      else (Inr (getprop txConfig ''gasLimit''), []))"

definition resolve_gasPrice :: "BaseWeb3Client \<Rightarrow> bool \<Rightarrow> obj \<Rightarrow> (error + jsval) \<times> call list" where
  "resolve_gasPrice cl isParent txConfig =
     (if \<not> truthy (getprop txConfig ''gasPrice'')
      then (getGasPrice cl, [CallGetGasPrice isParent])
      else (Inr (getprop txConfig ''gasPrice''), []))"

definition resolve_nonce :: "BaseWeb3Client \<Rightarrow> bool \<Rightarrow> obj \<Rightarrow> (error + jsval) \<times> call list" where
  "resolve_nonce cl isParent txConfig =
     (if \<not> truthy (getprop txConfig ''nonce'')
      then (getTransactionCount cl (getprop txConfig ''from'') ''pending'',
            [CallGetTransactionCount isParent (getprop txConfig ''from'') ''pending''])
      else (Inr (getprop txConfig ''nonce''), []))"

definition resolve_chainId :: "BaseWeb3Client \<Rightarrow> bool \<Rightarrow> obj \<Rightarrow> (error + jsval) \<times> call list" where
  "resolve_chainId cl isParent txConfig =
     (if \<not> truthy (getprop txConfig ''chainId'')
      then (getChainId cl, [CallGetChainId isParent])
      else (Inr (getprop txConfig ''chainId''), []))"

text \<open>
  The calls of the array, in the order its entries are evaluated. All four entries are
  evaluated before \<open>Promise.all\<close> is entered, so every call is issued whatever the
  outcomes are.
\<close>

definition resolution_calls ::
  "BaseWeb3Client \<Rightarrow> BaseContractMethod option \<Rightarrow> bool \<Rightarrow> obj \<Rightarrow> call list"
where
  "resolution_calls cl meth isParent txConfig =
     snd (resolve_gasLimit cl meth isParent txConfig)
     @ snd (resolve_gasPrice cl isParent txConfig)
     @ snd (resolve_nonce cl isParent txConfig)
     @ snd (resolve_chainId cl isParent txConfig)"

text \<open>The fields written once the four values are known.\<close>

definition fill_options ::
  "(jsval \<Rightarrow> jsval) \<Rightarrow> bool \<Rightarrow> jsval \<Rightarrow> jsval \<Rightarrow> jsval \<times> jsval \<times> jsval \<times> jsval \<Rightarrow> obj \<Rightarrow> obj"
where
  "fill_options num isEIP1559 maxFeePerGas maxPriorityFeePerGas r txConfig =
     (case r of (gasLimit, gasPrice, nonce, chainId) \<Rightarrow>
        let c = txConfig(''gasLimit'' \<mapsto> num gasLimit, ''nonce'' \<mapsto> nonce, ''chainId'' \<mapsto> chainId)
        in if isEIP1559
           then c(''maxFeePerGas'' \<mapsto> maxFeePerGas, ''maxPriorityFeePerGas'' \<mapsto> maxPriorityFeePerGas)
           else c(''gasPrice'' \<mapsto> num gasPrice))"

text \<open>
  Lines 170-171: the default record of the side, with the caller's \<open>txConfig\<close> (or the
  empty record when it is falsy) assigned over it.
\<close>

definition merged_txConfig :: "bool \<Rightarrow> jsval \<Rightarrow> state \<Rightarrow> obj" where
  "merged_txConfig isParent txConfig0 s =
     Object_assign (defaultConfig_of isParent s)
       (if truthy txConfig0 then txConfig0 else JObj Map.empty)"

text \<open>Line 182: the condition under which the build throws.\<close>

definition fee_guard :: "BaseToken \<Rightarrow> bool \<Rightarrow> obj \<Rightarrow> bool" where
  "fee_guard this isParent txConfig =
     (\<not> isParent \<and> isEIP1559Supported (client this) isParent \<and>
      (truthy (getprop txConfig ''maxFeePerGas'') \<or>
       truthy (getprop txConfig ''maxPriorityFeePerGas'')))"

text \<open>
  \<open>createTransactionConfig\<close> is an \<open>async\<close> function: every failure is a rejection. Its
  \<open>txConfig\<close> is the stored default record itself, the target of \<open>Object.assign\<close>: the
  function reads and writes that record, and the promise it returns is fulfilled with a
  reference to it, here the side whose record it is.

  In write mode the function runs in two parts. The first runs when it is called, up to
  \<open>await Promise.all\<close>: the merge, the guard and the four entries of the array, whose
  calls are issued there. What the second part needs is kept in a \<open>pending_build\<close>: the
  side, the locals \<open>isEIP1559Supported\<close>, \<open>maxFeePerGas\<close> and \<open>maxPriorityFeePerGas\<close>, and
  how \<open>Promise.all\<close> settles. In read mode there is no \<open>await\<close>: the first part is the
  whole function.
\<close>

record pending_build =
  pb_isParent :: bool
  pb_isEIP1559 :: bool
  pb_maxFeePerGas :: jsval
  pb_maxPriorityFeePerGas :: jsval
  pb_settled :: "error + (jsval \<times> jsval \<times> jsval \<times> jsval)"

datatype build_step = Failed error | Ready bool | Awaiting pending_build

definition createTransactionConfig_start ::
  "BaseToken \<Rightarrow> jsval \<Rightarrow> BaseContractMethod option \<Rightarrow> bool \<Rightarrow> bool \<Rightarrow> state
     \<Rightarrow> build_step \<times> state \<times> call list"
where
  "createTransactionConfig_start this txConfig0 meth isParent isWrite s =
     (let txConfig = merged_txConfig isParent txConfig0 s;
          s1 = set_defaultConfig isParent txConfig s;
          cs1 = [CallLog ''txConfig''];
          cl = (if isParent then parent (client this) else child (client this))
      in if isWrite then
           let maxFeePerGas = getprop txConfig ''maxFeePerGas'';
               maxPriorityFeePerGas = getprop txConfig ''maxPriorityFeePerGas'';
               isEIP1559 = isEIP1559Supported (client this) isParent;
               cs2 = cs1 @ [CallIsEIP1559Supported isParent]
           in if fee_guard this isParent txConfig
              then (Failed ChildChainNoEIP1559, s1, cs2)
              else
                (Awaiting
                   \<lparr>pb_isParent = isParent, pb_isEIP1559 = isEIP1559,
                    pb_maxFeePerGas = maxFeePerGas,
                    pb_maxPriorityFeePerGas = maxPriorityFeePerGas,
                    pb_settled =
                      Promise_all4 (settle_order cl)
                        (fst (resolve_gasLimit cl meth isParent txConfig))
                        (fst (resolve_gasPrice cl isParent txConfig))
                        (fst (resolve_nonce cl isParent txConfig))
                        (fst (resolve_chainId cl isParent txConfig))\<rparr>,
                 s1, cs2 @ resolution_calls cl meth isParent txConfig)
         else (Ready isParent, s1, cs1))"

text \<open>
  The second part runs when \<open>Promise.all\<close> has settled, on the state as it is by then:
  the fields are written into the default record as it is stored at that moment, which
  other builds on the same side may have written in between.
\<close>

definition createTransactionConfig_resume ::
  "BaseToken \<Rightarrow> pending_build \<Rightarrow> state \<Rightarrow> (error + bool) \<times> state \<times> call list"
where
  "createTransactionConfig_resume this pb s =
     (case pb_settled pb of
        Inl e \<Rightarrow> (Inl e, s, [])
      | Inr r \<Rightarrow>
          (Inr (pb_isParent pb),
           set_defaultConfig (pb_isParent pb)
             (fill_options (Number this) (pb_isEIP1559 pb) (pb_maxFeePerGas pb)
                (pb_maxPriorityFeePerGas pb) r (defaultConfig_of (pb_isParent pb) s)) s,
           [CallLog ''options filled'']))"

text \<open>How the promise of a build settles, from where its first part left it.\<close>

definition createTransactionConfig_settle ::
  "BaseToken \<Rightarrow> build_step \<Rightarrow> state \<Rightarrow> (error + bool) \<times> state \<times> call list"
where
  "createTransactionConfig_settle this step s =
     (case step of
        Failed e \<Rightarrow> (Inl e, s, [])
      | Ready p \<Rightarrow> (Inr p, s, [])
      | Awaiting pb \<Rightarrow> createTransactionConfig_resume this pb s)"

text \<open>
  A build that no other build overlaps: its second part runs on the state its first part
  left. The result is the content of the record the promise is fulfilled with, read when
  it is fulfilled.
\<close>

definition createTransactionConfig ::
  "BaseToken \<Rightarrow> jsval \<Rightarrow> BaseContractMethod option \<Rightarrow> bool \<Rightarrow> bool \<Rightarrow> state
     \<Rightarrow> (error + obj) \<times> state \<times> call list"
where
  "createTransactionConfig this txConfig0 meth isParent isWrite s =
     (case createTransactionConfig_start this txConfig0 meth isParent isWrite s of
        (step, s1, cs1) \<Rightarrow>
          (case createTransactionConfig_settle this step s1 of
             (Inl e, s2, cs2) \<Rightarrow> (Inl e, s2, cs1 @ cs2)
           | (Inr p, s2, cs2) \<Rightarrow> (Inr (defaultConfig_of p s2), s2, cs1 @ cs2)))"

section \<open>The four operations\<close>

text \<open>
  A parameter declared \<open>option: ITransactionOption = {}\<close> takes the empty record when the
  argument is \<open>undefined\<close> (or left out), and the argument itself otherwise.
\<close>

definition default_option :: "jsval \<Rightarrow> jsval" where
  "default_option option = (case option of JUndefined \<Rightarrow> JObj Map.empty | _ \<Rightarrow> option)"

text \<open>
  Reading a property of a value (\<open>option.returnTransaction\<close>): a \<open>TypeError\<close> on \<open>null\<close> and
  \<open>undefined\<close>; on any other value the own property, \<open>undefined\<close> when there is none.
\<close>

fun member :: "jsval \<Rightarrow> string \<Rightarrow> error + jsval" where
  "member JUndefined k = Inl TypeError"
| "member JNull k = Inl TypeError"
| "member v k = Inr (getprop (own_props v) k)"

text \<open>
  Modelled from the spec: \<open>merge\<close> (\<open>../utils\<close>) is not among the sources; it returns the
  config augmented with the given fields, as a new object.
\<close>

definition merge :: "obj \<Rightarrow> obj \<Rightarrow> obj" where
  "merge a b = a ++ b"

text \<open>
  Modelled from the spec: \<open>ContractWriteResult\<close> (\<open>../helpers\<close>) is not among the sources;
  it wraps a submitted write's outcome. An operation's promise is fulfilled with a
  config (when the caller asked for the unsent transaction), with such a wrapper around
  the write's result, or with the value read.
\<close>

datatype result = Config obj | ContractWriteResult jsval | ReadValue jsval

text \<open>
  Each operation runs in parts. The first runs when the operation is called: the
  validation, the log and the first part of the build; it either throws or leaves the
  build where its first part left it, with the option as defaulted. The last part is
  the \<open>then\<close> callback, which runs after the build's promise is fulfilled: its \<open>config\<close> is
  the reference the build returned, so what it reads is the default record as stored
  when the callback runs.
\<close>

datatype op_step = Threw error | Building jsval build_step

definition getClient :: "BaseToken \<Rightarrow> bool \<Rightarrow> BaseWeb3Client" where
  "getClient this isParent = (if isParent then parent (client this) else child (client this))"

definition processWrite_start ::
  "BaseToken \<Rightarrow> BaseContractMethod \<Rightarrow> jsval \<Rightarrow> state \<Rightarrow> op_step \<times> state \<times> call list"
where
  "processWrite_start this meth option0 s =
     (let option = default_option option0 in
      case validateTxOption' option of
        Inl e \<Rightarrow> (Threw e, s, [])
      | Inr u \<Rightarrow>
          (case createTransactionConfig_start this option (Some meth)
                  (cp_isParent (contractParam this)) True s of
             (step, s1, cs1) \<Rightarrow> (Building option step, s1, CallLog ''process write'' # cs1)))"

definition processWrite_then ::
  "BaseToken \<Rightarrow> BaseContractMethod \<Rightarrow> jsval \<Rightarrow> bool \<Rightarrow> state \<Rightarrow> result completion \<times> call list"
where
  "processWrite_then this meth option p s =
     (let config = defaultConfig_of p s;
          cs = [CallLog ''process write config''] in
      case member option ''returnTransaction'' of
        Inl e \<Rightarrow> (Rejected e, cs)
      | Inr rt \<Rightarrow>
          if truthy rt
          then (Fulfilled (Config (merge config
                  [''data'' \<mapsto> method_encodeABI meth, ''to'' \<mapsto> method_address meth])),
                cs @ [CallEncodeABI])
          else (Fulfilled (ContractWriteResult (method_write meth config)),
                cs @ [CallMethodWrite config]))"

definition sendTransaction_start ::
  "BaseToken \<Rightarrow> jsval \<Rightarrow> state \<Rightarrow> op_step \<times> state \<times> call list"
where
  "sendTransaction_start this option0 s =
     (let option = default_option option0 in
      case validateTxOption' option of
        Inl e \<Rightarrow> (Threw e, s, [])
      | Inr u \<Rightarrow>
          (case createTransactionConfig_start this option None
                  (cp_isParent (contractParam this)) True s of
             (step, s1, cs1) \<Rightarrow> (Building option step, s1, CallLog ''process write'' # cs1)))"

definition sendTransaction_then ::
  "BaseToken \<Rightarrow> jsval \<Rightarrow> bool \<Rightarrow> state \<Rightarrow> result completion \<times> call list"
where
  "sendTransaction_then this option p s =
     (let config = defaultConfig_of p s;
          isParent = cp_isParent (contractParam this);
          cl = getClient this isParent;
          cs = [CallLog ''process write config''] in
      case member option ''returnTransaction'' of
        Inl e \<Rightarrow> (Rejected e, cs)
      | Inr rt \<Rightarrow>
          if truthy rt
          then (Fulfilled (Config config), cs)
          else (Fulfilled (ContractWriteResult (client_write cl config)),
                cs @ [CallWrite isParent config]))"

definition readTransaction_start ::
  "BaseToken \<Rightarrow> jsval \<Rightarrow> state \<Rightarrow> op_step \<times> state \<times> call list"
where
  "readTransaction_start this option0 s =
     (let option = default_option option0 in
      case validateTxOption' option of
        Inl e \<Rightarrow> (Threw e, s, [])
      | Inr u \<Rightarrow>
          (case createTransactionConfig_start this option None
                  (cp_isParent (contractParam this)) True s of
             (step, s1, cs1) \<Rightarrow> (Building option step, s1, CallLog ''process read'' # cs1)))"

definition readTransaction_then ::
  "BaseToken \<Rightarrow> jsval \<Rightarrow> bool \<Rightarrow> state \<Rightarrow> result completion \<times> call list"
where
  "readTransaction_then this option p s =
     (let config = defaultConfig_of p s;
          isParent = cp_isParent (contractParam this);
          cl = getClient this isParent;
          cs = [CallLog ''write tx config created''] in
      case member option ''returnTransaction'' of
        Inl e \<Rightarrow> (Rejected e, cs)
      | Inr rt \<Rightarrow>
          if truthy rt
          then (Fulfilled (Config config), cs)
          else (case client_read cl config of
                  Inl e \<Rightarrow> (Rejected e, cs @ [CallRead isParent config])
                | Inr v \<Rightarrow> (Fulfilled (ReadValue v), cs @ [CallRead isParent config])))"

definition processRead_start ::
  "BaseToken \<Rightarrow> BaseContractMethod \<Rightarrow> jsval \<Rightarrow> state \<Rightarrow> op_step \<times> state \<times> call list"
where
  "processRead_start this meth option0 s =
     (let option = default_option option0 in
      case validateTxOption' option of
        Inl e \<Rightarrow> (Threw e, s, [])
      | Inr u \<Rightarrow>
          (case createTransactionConfig_start this option (Some meth)
                  (cp_isParent (contractParam this)) False s of
             (step, s1, cs1) \<Rightarrow> (Building option step, s1, CallLog ''process read'' # cs1)))"

text \<open>
  The callback of \<open>processRead\<close> reads \<open>this.contract_.address\<close> when the unsent
  transaction is asked for: a \<open>TypeError\<close> while no contract is memoized.
\<close>

definition processRead_then ::
  "BaseToken \<Rightarrow> BaseContractMethod \<Rightarrow> jsval \<Rightarrow> bool \<Rightarrow> state \<Rightarrow> result completion \<times> call list"
where
  "processRead_then this meth option p s =
     (let config = defaultConfig_of p s;
          cs = [CallLog ''read tx config created''] in
      case member option ''returnTransaction'' of
        Inl e \<Rightarrow> (Rejected e, cs)
      | Inr rt \<Rightarrow>
          if truthy rt
          then (case contract' s of
                  None \<Rightarrow> (Rejected TypeError, cs @ [CallEncodeABI])
                | Some c \<Rightarrow>
                    (Fulfilled (Config (merge config
                       [''data'' \<mapsto> method_encodeABI meth, ''to'' \<mapsto> contract_address c])),
                     cs @ [CallEncodeABI]))
          else (case method_read meth config of
                  Inl e \<Rightarrow> (Rejected e, cs @ [CallMethodRead config])
                | Inr v \<Rightarrow> (Fulfilled (ReadValue v), cs @ [CallMethodRead config])))"

text \<open>
  An operation that nothing overlaps: the build settles on the state the first part
  left, and the callback runs on the state the build left.
\<close>

definition run_alone ::
  "BaseToken \<Rightarrow> op_step \<times> state \<times> call list
     \<Rightarrow> (jsval \<Rightarrow> bool \<Rightarrow> state \<Rightarrow> result completion \<times> call list)
     \<Rightarrow> result completion \<times> state \<times> call list"
where
  "run_alone this started callback =
     (case started of
        (Threw e, s, cs) \<Rightarrow> (Thrown e, s, cs)
      | (Building option step, s1, cs1) \<Rightarrow>
          (case createTransactionConfig_settle this step s1 of
             (Inl e, s2, cs2) \<Rightarrow> (Rejected e, s2, cs1 @ cs2)
           | (Inr p, s2, cs2) \<Rightarrow>
               (case callback option p s2 of (r, cs3) \<Rightarrow> (r, s2, cs1 @ cs2 @ cs3))))"

definition processWrite ::
  "BaseToken \<Rightarrow> BaseContractMethod \<Rightarrow> jsval \<Rightarrow> state \<Rightarrow> result completion \<times> state \<times> call list"
where
  "processWrite this meth option0 s =
     run_alone this (processWrite_start this meth option0 s) (processWrite_then this meth)"

definition sendTransaction ::
  "BaseToken \<Rightarrow> jsval \<Rightarrow> state \<Rightarrow> result completion \<times> state \<times> call list"
where
  "sendTransaction this option0 s =
     run_alone this (sendTransaction_start this option0 s) (sendTransaction_then this)"

definition readTransaction ::
  "BaseToken \<Rightarrow> jsval \<Rightarrow> state \<Rightarrow> result completion \<times> state \<times> call list"
where
  "readTransaction this option0 s =
     run_alone this (readTransaction_start this option0 s) (readTransaction_then this)"

definition processRead ::
  "BaseToken \<Rightarrow> BaseContractMethod \<Rightarrow> jsval \<Rightarrow> state \<Rightarrow> result completion \<times> state \<times> call list"
where
  "processRead this meth option0 s =
     run_alone this (processRead_start this meth option0 s) (processRead_then this meth)"

section \<open>The contract lazy-loader\<close>

text \<open>
  \<open>getContract_\<close> of the source: the side's client builds a contract for the address and
  the ABI, a new object at every call.
\<close>

definition getContract' ::
  "bool \<Rightarrow> jsval \<Rightarrow> jsval \<Rightarrow> state \<Rightarrow> BaseContract \<times> state \<times> call list"
where
  "getContract' isParent tokenAddress abi s =
     (\<lparr>contract_ref = built s, contract_address = tokenAddress, contract_abi = abi\<rparr>,
      s\<lparr>built := Suc (built s)\<rparr>,
      [CallGetContract isParent tokenAddress abi])"

text \<open>
  \<open>getContract\<close> runs in two parts. The first runs when it is called: it returns the
  memoized contract (\<open>Some\<close>), or issues the ABI fetch and returns a pending promise
  (\<open>None\<close>). The second, the \<open>then\<close> callback, runs when the fetch settles: on an ABI it
  builds the contract and stores it, on a rejection it does nothing.
\<close>

text \<open>
  Modelled from the spec: \<open>promiseResolve\<close> (\<open>./promise_resolve\<close>) is not among the sources;
  it wraps the already-built instance in a promise fulfilled with it, here the \<open>Some\<close>
  of the first part.
\<close>

definition getContract_start :: "BaseToken \<Rightarrow> state \<Rightarrow> BaseContract option \<times> call list" where
  "getContract_start this s =
     (case contract' s of
        Some c \<Rightarrow> (Some c, [])
      | None \<Rightarrow> (None, [CallGetABI (cp_name (contractParam this))
                                   (cp_bridgeType (contractParam this))]))"

definition getContract_then ::
  "BaseToken \<Rightarrow> error + jsval \<Rightarrow> state \<Rightarrow> BaseContract completion \<times> state \<times> call list"
where
  "getContract_then this fetched s =
     (case fetched of
        Inl e \<Rightarrow> (Rejected e, s, [])
      | Inr abi \<Rightarrow>
          (case getContract' (cp_isParent (contractParam this))
                  (cp_address (contractParam this)) abi s of
             (c, s1, cs) \<Rightarrow> (Fulfilled c, s1\<lparr>contract' := Some c\<rparr>, cs)))"

text \<open>
  One call run to its end with no other call in between, the fetch (if one is issued)
  settling as \<open>fetched\<close>.
\<close>

definition getContract_with ::
  "BaseToken \<Rightarrow> error + jsval \<Rightarrow> state \<Rightarrow> BaseContract completion \<times> state \<times> call list"
where
  "getContract_with this fetched s =
     (case getContract_start this s of
        (Some c, cs) \<Rightarrow> (Fulfilled c, s, cs)
      | (None, cs) \<Rightarrow>
          (case getContract_then this fetched s of
             (r, s1, cs1) \<Rightarrow> (r, s1, cs @ cs1)))"

definition getContract :: "BaseToken \<Rightarrow> state \<Rightarrow> BaseContract completion \<times> state \<times> call list" where
  "getContract this s =
     getContract_with this
       (getABI (client this) (cp_name (contractParam this)) (cp_bridgeType (contractParam this))) s"

text \<open>
  Calls made one after the other, each run to its end before the next is made; the
  \<open>i\<close>-th fetch, if issued, settles as the \<open>i\<close>-th entry. The result is the state after
  the last call and the calls issued, in order.
\<close>

fun getContract_seq :: "BaseToken \<Rightarrow> (error + jsval) list \<Rightarrow> state \<Rightarrow> state \<times> call list" where
  "getContract_seq this [] s = (s, [])"
| "getContract_seq this (f # fs) s =
     (case getContract_with this f s of
        (r, s1, cs) \<Rightarrow> (case getContract_seq this fs s1 of (s2, cs2) \<Rightarrow> (s2, cs @ cs2)))"

section \<open>Classifying calls\<close>

fun is_estimateGas :: "call \<Rightarrow> bool" where
  "is_estimateGas (CallEstimateGas p c) = True"
| "is_estimateGas (CallMethodEstimateGas c) = True"
| "is_estimateGas c = False"

fun is_getGasPrice :: "call \<Rightarrow> bool" where
  "is_getGasPrice (CallGetGasPrice p) = True"
| "is_getGasPrice c = False"

fun is_getTransactionCount :: "call \<Rightarrow> bool" where
  "is_getTransactionCount (CallGetTransactionCount p a t) = True"
| "is_getTransactionCount c = False"

fun is_getChainId :: "call \<Rightarrow> bool" where
  "is_getChainId (CallGetChainId p) = True"
| "is_getChainId c = False"

text \<open>The four network resolutions of a build.\<close>

definition is_resolution :: "call \<Rightarrow> bool" where
  "is_resolution c =
     (is_estimateGas c \<or> is_getGasPrice c \<or> is_getTransactionCount c \<or> is_getChainId c)"

fun is_read :: "call \<Rightarrow> bool" where
  "is_read (CallRead p c) = True"
| "is_read c = False"

fun is_getABI :: "call \<Rightarrow> bool" where
  "is_getABI (CallGetABI n b) = True"
| "is_getABI c = False"

section \<open>A stubbed token for the examples\<close>

text \<open>
  The stubs of the spec's scenario: \<open>estimateGas\<close> gives 21000, \<open>getTransactionCount\<close> 5,
  \<open>getChainId\<close> 137; the gas price is 1000.
\<close>

definition stub_client :: BaseWeb3Client where
  "stub_client =
     \<lparr>estimateGas = (\<lambda>c. Inr (JNum 21000)),
      getGasPrice = Inr (JNum 1000),
      getTransactionCount = (\<lambda>a t. Inr (JNum 5)),
      getChainId = Inr (JNum 137),
      client_read = (\<lambda>c. Inr (JStr ''read'')),
      client_write = (\<lambda>c. JStr ''hash''),
      settle_order = [0, 1, 2, 3]\<rparr>"

definition stub_method :: BaseContractMethod where
  "stub_method =
     \<lparr>method_estimateGas = (\<lambda>c. Inr (JNum 50000)),
      method_encodeABI = JStr ''0xa9059cbb'',
      method_address = JStr ''0xT'',
      method_read = (\<lambda>c. Inr (JStr ''read'')),
      method_write = (\<lambda>c. JStr ''hash'')\<rparr>"

text \<open>
  The host conversion of the examples. It is \<open>Number\<close> on numbers, \<open>undefined\<close>, \<open>null\<close>,
  booleans and on strings that, once the ASCII white space around them is removed, are
  empty, a signed or unsigned run of decimal digits, a hexadecimal, octal or binary
  literal (\<open>0x\<close>, \<open>0o\<close>, \<open>0b\<close>), or no numeric literal at all; the values are exact below
  \<open>2^53\<close>. Decimal literals with a fraction or an exponent and \<open>Infinity\<close> denote numbers
  this model does not have, and arrays and objects convert through their string form:
  the stub answers \<open>NaN\<close> for all of these, and no example converts one.
\<close>

definition is_space :: "char \<Rightarrow> bool" where
  "is_space c = (c \<in> set [CHR '' '', CHR 0x09, CHR 0x0A, CHR 0x0B, CHR 0x0C, CHR 0x0D])"

definition trim :: "string \<Rightarrow> string" where
  "trim s = rev (dropWhile is_space (rev (dropWhile is_space s)))"

definition digit_value :: "nat \<Rightarrow> char \<Rightarrow> nat option" where
  "digit_value radix c =
     (let n = (of_char c :: nat);
          d = (if 48 \<le> n \<and> n \<le> 57 then n - 48
               else if 97 \<le> n \<and> n \<le> 102 then n - 87
               else if 65 \<le> n \<and> n \<le> 70 then n - 55
               else radix)
      in if d < radix then Some d else None)"

fun digits_value :: "nat \<Rightarrow> string \<Rightarrow> nat \<Rightarrow> nat option" where
  "digits_value radix [] acc = Some acc"
| "digits_value radix (c # cs) acc =
     (case digit_value radix c of
        None \<Rightarrow> None
      | Some d \<Rightarrow> digits_value radix cs (acc * radix + d))"

definition radix_literal :: "nat \<Rightarrow> string \<Rightarrow> jsval" where
  "radix_literal radix ds =
     (if ds = [] then JNaN
      else case digits_value radix ds 0 of None \<Rightarrow> JNaN | Some n \<Rightarrow> JNum (int n))"

fun number_literal :: "string \<Rightarrow> jsval" where
  "number_literal [] = JNum 0"
| "number_literal (c # cs) =
     (if c = CHR ''-'' then (case radix_literal 10 cs of JNum n \<Rightarrow> JNum (- n) | v \<Rightarrow> v)
      else if c = CHR ''+'' then radix_literal 10 cs
      else case cs of
             [] \<Rightarrow> radix_literal 10 [c]
           | x # ds \<Rightarrow>
               if c = CHR ''0'' \<and> (x = CHR ''x'' \<or> x = CHR ''X'') then radix_literal 16 ds
               else if c = CHR ''0'' \<and> (x = CHR ''o'' \<or> x = CHR ''O'') then radix_literal 8 ds
               else if c = CHR ''0'' \<and> (x = CHR ''b'' \<or> x = CHR ''B'') then radix_literal 2 ds
               else radix_literal 10 (c # cs))"

fun stub_Number :: "jsval \<Rightarrow> jsval" where
  "stub_Number (JNum n) = JNum n"
| "stub_Number JNull = JNum 0"
| "stub_Number (JBool b) = JNum (if b then 1 else 0)"
| "stub_Number (JStr s) = number_literal (trim s)"
| "stub_Number v = JNaN"

text \<open>
  A token on the given side; \<open>supported\<close> is what the fee-market query answers for
  either side.
\<close>

definition stub_token :: "bool \<Rightarrow> bool \<Rightarrow> BaseToken" where
  "stub_token isParent supported =
     \<lparr>contractParam =
        \<lparr>cp_isParent = isParent, cp_address = JStr ''0xT'',
         cp_name = JStr ''ChildERC20'', cp_bridgeType = JStr ''pos''\<rparr>,
      client =
        \<lparr>parent = stub_client, child = stub_client,
         isEIP1559Supported = (\<lambda>p. supported),
         getABI = (\<lambda>n b. Inr (JStr ''abi''))\<rparr>,
      Number = stub_Number\<rparr>"

text \<open>A state with the given default records and no contract memoized.\<close>

definition stub_state :: "obj \<Rightarrow> obj \<Rightarrow> state" where
  "stub_state pd cd =
     \<lparr>parentDefaultConfig = pd, childDefaultConfig = cd, contract' = None, built = 0\<rparr>"

section \<open>Properties\<close>

lemmas stub_defs = stub_token_def stub_state_def stub_client_def stub_method_def

subsection \<open>Runs that nothing overlaps, in one piece\<close>

lemma createTransactionConfig_alone:
  "createTransactionConfig this txConfig0 meth isParent isWrite s =
     (let txConfig = merged_txConfig isParent txConfig0 s;
          s1 = set_defaultConfig isParent txConfig s;
          cs1 = [CallLog ''txConfig''];
          cl = (if isParent then parent (client this) else child (client this))
      in if isWrite then
           let maxFeePerGas = getprop txConfig ''maxFeePerGas'';
               maxPriorityFeePerGas = getprop txConfig ''maxPriorityFeePerGas'';
               isEIP1559 = isEIP1559Supported (client this) isParent;
               cs2 = cs1 @ [CallIsEIP1559Supported isParent]
           in if fee_guard this isParent txConfig
              then (Inl ChildChainNoEIP1559, s1, cs2)
              else
                let cs3 = cs2 @ resolution_calls cl meth isParent txConfig
                in case Promise_all4 (settle_order cl)
                          (fst (resolve_gasLimit cl meth isParent txConfig))
                          (fst (resolve_gasPrice cl isParent txConfig))
                          (fst (resolve_nonce cl isParent txConfig))
                          (fst (resolve_chainId cl isParent txConfig)) of
                     Inl e \<Rightarrow> (Inl e, s1, cs3)
                   | Inr r \<Rightarrow>
                       let filled = fill_options (Number this) isEIP1559
                                      maxFeePerGas maxPriorityFeePerGas r txConfig
                       in (Inr filled, set_defaultConfig isParent filled s1,
                           cs3 @ [CallLog ''options filled''])
         else (Inr txConfig, s1, cs1))"
  by (simp add: createTransactionConfig_def createTransactionConfig_start_def
      createTransactionConfig_settle_def createTransactionConfig_resume_def Let_def
      defaultConfig_of_def set_defaultConfig_def split: sum.splits)

lemma processWrite_alone:
  "processWrite this meth option0 s =
     (let option = default_option option0 in
      case validateTxOption' option of
        Inl e \<Rightarrow> (Thrown e, s, [])
      | Inr u \<Rightarrow>
          let cs0 = [CallLog ''process write''] in
          case createTransactionConfig this option (Some meth)
                 (cp_isParent (contractParam this)) True s of
            (Inl e, s1, cs1) \<Rightarrow> (Rejected e, s1, cs0 @ cs1)
          | (Inr config, s1, cs1) \<Rightarrow>
              let cs2 = cs0 @ cs1 @ [CallLog ''process write config''] in
              case member option ''returnTransaction'' of
                Inl e \<Rightarrow> (Rejected e, s1, cs2)
              | Inr rt \<Rightarrow>
                  if truthy rt
                  then (Fulfilled (Config (merge config
                          [''data'' \<mapsto> method_encodeABI meth, ''to'' \<mapsto> method_address meth])),
                        s1, cs2 @ [CallEncodeABI])
                  else (Fulfilled (ContractWriteResult (method_write meth config)),
                        s1, cs2 @ [CallMethodWrite config]))"
  by (auto simp add: processWrite_def run_alone_def processWrite_start_def processWrite_then_def
      createTransactionConfig_def Let_def split: sum.splits prod.splits)

lemma sendTransaction_alone:
  "sendTransaction this option0 s =
     (let option = default_option option0 in
      case validateTxOption' option of
        Inl e \<Rightarrow> (Thrown e, s, [])
      | Inr u \<Rightarrow>
          let cs0 = [CallLog ''process write''];
              isParent = cp_isParent (contractParam this);
              cl = getClient this isParent in
          case createTransactionConfig this option None
                 (cp_isParent (contractParam this)) True s of
            (Inl e, s1, cs1) \<Rightarrow> (Rejected e, s1, cs0 @ cs1)
          | (Inr config, s1, cs1) \<Rightarrow>
              let cs2 = cs0 @ cs1 @ [CallLog ''process write config''] in
              case member option ''returnTransaction'' of
                Inl e \<Rightarrow> (Rejected e, s1, cs2)
              | Inr rt \<Rightarrow>
                  if truthy rt
                  then (Fulfilled (Config config), s1, cs2)
                  else (Fulfilled (ContractWriteResult (client_write cl config)),
                        s1, cs2 @ [CallWrite isParent config]))"
  by (auto simp add: sendTransaction_def run_alone_def sendTransaction_start_def sendTransaction_then_def
      createTransactionConfig_def Let_def split: sum.splits prod.splits)

lemma readTransaction_alone:
  "readTransaction this option0 s =
     (let option = default_option option0 in
      case validateTxOption' option of
        Inl e \<Rightarrow> (Thrown e, s, [])
      | Inr u \<Rightarrow>
          let cs0 = [CallLog ''process read''];
              isParent = cp_isParent (contractParam this);
              cl = getClient this isParent in
          case createTransactionConfig this option None
                 (cp_isParent (contractParam this)) True s of
            (Inl e, s1, cs1) \<Rightarrow> (Rejected e, s1, cs0 @ cs1)
          | (Inr config, s1, cs1) \<Rightarrow>
              let cs2 = cs0 @ cs1 @ [CallLog ''write tx config created''] in
              case member option ''returnTransaction'' of
                Inl e \<Rightarrow> (Rejected e, s1, cs2)
              | Inr rt \<Rightarrow>
                  if truthy rt
                  then (Fulfilled (Config config), s1, cs2)
                  else (case client_read cl config of
                          Inl e \<Rightarrow> (Rejected e, s1, cs2 @ [CallRead isParent config])
                        | Inr v \<Rightarrow> (Fulfilled (ReadValue v), s1, cs2 @ [CallRead isParent config])))"
  by (auto simp add: readTransaction_def run_alone_def readTransaction_start_def readTransaction_then_def
      createTransactionConfig_def Let_def split: sum.splits prod.splits)

lemma processRead_alone:
  "processRead this meth option0 s =
     (let option = default_option option0 in
      case validateTxOption' option of
        Inl e \<Rightarrow> (Thrown e, s, [])
      | Inr u \<Rightarrow>
          let cs0 = [CallLog ''process read''] in
          case createTransactionConfig this option (Some meth)
                 (cp_isParent (contractParam this)) False s of
            (Inl e, s1, cs1) \<Rightarrow> (Rejected e, s1, cs0 @ cs1)
          | (Inr config, s1, cs1) \<Rightarrow>
              let cs2 = cs0 @ cs1 @ [CallLog ''read tx config created''] in
              case member option ''returnTransaction'' of
                Inl e \<Rightarrow> (Rejected e, s1, cs2)
              | Inr rt \<Rightarrow>
                  if truthy rt
                  then (case contract' s1 of
                          None \<Rightarrow> (Rejected TypeError, s1, cs2 @ [CallEncodeABI])
                        | Some c \<Rightarrow>
                            (Fulfilled (Config (merge config
                               [''data'' \<mapsto> method_encodeABI meth, ''to'' \<mapsto> contract_address c])),
                             s1, cs2 @ [CallEncodeABI]))
                  else (case method_read meth config of
                          Inl e \<Rightarrow> (Rejected e, s1, cs2 @ [CallMethodRead config])
                        | Inr v \<Rightarrow> (Fulfilled (ReadValue v), s1, cs2 @ [CallMethodRead config])))"
  by (auto simp add: processRead_def run_alone_def processRead_start_def processRead_then_def
      createTransactionConfig_def Let_def split: sum.splits prod.splits option.splits)

lemmas build_defs = createTransactionConfig_alone merged_txConfig_def fee_guard_def
  Object_assign_def defaultConfig_of_def set_defaultConfig_def resolution_calls_def
  resolve_gasLimit_def resolve_gasPrice_def resolve_nonce_def resolve_chainId_def
  Promise_all4_def List.map_filter_simps getprop_def estimateGas_of_def fill_options_def
  Let_def getClient_def

lemmas op_defs = processWrite_alone sendTransaction_alone readTransaction_alone processRead_alone
  default_option_def validateTxOption'_def merge_def

lemmas number_defs = trim_def is_space_def radix_literal_def digit_value_def

subsection \<open>The builder, case by case\<close>

lemma build_read_mode:
  "createTransactionConfig this t meth p False s =
     (Inr (merged_txConfig p t s), set_defaultConfig p (merged_txConfig p t s) s,
      [CallLog ''txConfig''])"
  by (simp add: createTransactionConfig_alone Let_def)

lemma build_guarded:
  "fee_guard this p (merged_txConfig p t s) \<Longrightarrow>
   createTransactionConfig this t meth p True s =
     (Inl ChildChainNoEIP1559, set_defaultConfig p (merged_txConfig p t s) s,
      [CallLog ''txConfig'', CallIsEIP1559Supported p])"
  by (simp add: createTransactionConfig_alone Let_def)

lemma build_write_calls:
  "\<not> fee_guard this p (merged_txConfig p t s) \<Longrightarrow>
   \<exists>tl. snd (snd (createTransactionConfig this t meth p True s)) =
     [CallLog ''txConfig'', CallIsEIP1559Supported p]
     @ resolution_calls (getClient this p) meth p (merged_txConfig p t s) @ tl
     \<and> (tl = [] \<or> tl = [CallLog ''options filled''])"
  by (simp add: createTransactionConfig_alone Let_def getClient_def split: sum.splits)

lemma build_write_filter:
  assumes "\<not> fee_guard this p (merged_txConfig p t s)"
      and "\<And>m. \<not> P (CallLog m)" and "\<And>q. \<not> P (CallIsEIP1559Supported q)"
  shows "filter P (snd (snd (createTransactionConfig this t meth p True s))) =
         filter P (resolution_calls (getClient this p) meth p (merged_txConfig p t s))"
  using build_write_calls [OF assms(1), of meth] assms(2,3) by auto

lemma build_write_config:
  "fst (createTransactionConfig this t meth p True s) = Inr config \<Longrightarrow>
   \<exists>r. Promise_all4 (settle_order (getClient this p))
          (fst (resolve_gasLimit (getClient this p) meth p (merged_txConfig p t s)))
          (fst (resolve_gasPrice (getClient this p) p (merged_txConfig p t s)))
          (fst (resolve_nonce (getClient this p) p (merged_txConfig p t s)))
          (fst (resolve_chainId (getClient this p) p (merged_txConfig p t s))) = Inr r
     \<and> config = fill_options (Number this) (isEIP1559Supported (client this) p)
          (getprop (merged_txConfig p t s) ''maxFeePerGas'')
          (getprop (merged_txConfig p t s) ''maxPriorityFeePerGas'') r (merged_txConfig p t s)"
  by (auto simp add: createTransactionConfig_alone Let_def getClient_def
      split: sum.splits if_splits)

lemma Promise_all4_Inr:
  "Promise_all4 order a b c d = Inr r \<Longrightarrow>
   \<exists>w x y z. a = Inr w \<and> b = Inr x \<and> c = Inr y \<and> d = Inr z \<and> r = (w, x, y, z)"
  by (auto simp: Promise_all4_def split: list.splits sum.splits)

subsection \<open>Which calls a build issues\<close>

lemma filter_getGasPrice_resolution:
  "filter is_getGasPrice (resolution_calls cl meth p c) =
     (if truthy (getprop c ''gasPrice'') then [] else [CallGetGasPrice p])"
  by (simp add: resolution_calls_def resolve_gasLimit_def resolve_gasPrice_def resolve_nonce_def
      resolve_chainId_def estimateGas_of_def split: option.splits)

lemma filter_resolution_explicit:
  "truthy (getprop c ''gasLimit'') \<Longrightarrow> truthy (getprop c ''nonce'') \<Longrightarrow>
   truthy (getprop c ''chainId'') \<Longrightarrow>
   filter is_resolution (resolution_calls cl meth p c) =
     (if truthy (getprop c ''gasPrice'') then [] else [CallGetGasPrice p])"
  by (simp add: resolution_calls_def resolve_gasLimit_def resolve_gasPrice_def resolve_nonce_def
      resolve_chainId_def is_resolution_def)

lemma filter_read_resolution: "filter is_read (resolution_calls cl meth p c) = []"
  by (simp add: resolution_calls_def resolve_gasLimit_def resolve_gasPrice_def resolve_nonce_def
      resolve_chainId_def estimateGas_of_def split: option.splits)

lemma build_calls_no_read:
  "filter is_read (snd (snd (createTransactionConfig this t meth p w s))) = []"
proof (cases w)
  case False
  then show ?thesis by (simp add: build_read_mode)
next
  case True
  show ?thesis
  proof (cases "fee_guard this p (merged_txConfig p t s)")
    case True
    with \<open>w\<close> show ?thesis by (simp add: build_guarded)
  next
    case False
    from build_write_filter [OF False, of is_read meth] \<open>w\<close> show ?thesis
      by (simp add: filter_read_resolution)
  qed
qed



lemma build_write_result:
  "fst (createTransactionConfig this t meth p True s) =
     (if fee_guard this p (merged_txConfig p t s) then Inl ChildChainNoEIP1559
      else case Promise_all4 (settle_order (getClient this p))
                  (fst (resolve_gasLimit (getClient this p) meth p (merged_txConfig p t s)))
                  (fst (resolve_gasPrice (getClient this p) p (merged_txConfig p t s)))
                  (fst (resolve_nonce (getClient this p) p (merged_txConfig p t s)))
                  (fst (resolve_chainId (getClient this p) p (merged_txConfig p t s))) of
             Inl e \<Rightarrow> Inl e
           | Inr r \<Rightarrow>
               Inr (fill_options (Number this) (isEIP1559Supported (client this) p)
                      (getprop (merged_txConfig p t s) ''maxFeePerGas'')
                      (getprop (merged_txConfig p t s) ''maxPriorityFeePerGas'') r
                      (merged_txConfig p t s)))"
  by (simp add: createTransactionConfig_alone Let_def getClient_def split: sum.splits)


subsection \<open>The caller's keys win\<close>

lemma own_props_truthy: "truthy (getprop (own_props v) k) \<Longrightarrow> truthy v"
  by (cases v) (auto simp: getprop_def)

lemma merged_caller_key:
  "truthy (getprop (own_props t) k) \<Longrightarrow>
   getprop (merged_txConfig p t s) k = getprop (own_props t) k"
  by (frule own_props_truthy)
     (auto simp: merged_txConfig_def Object_assign_def getprop_def map_add_def
      split: option.splits)

subsection \<open>Validation\<close>

lemma invalid_option:
  "option \<noteq> JUndefined \<Longrightarrow> typeof option \<noteq> ''object'' \<or> Array_isArray option \<Longrightarrow>
   validateTxOption' (default_option option) = Inl TransactionOptionNotObject"
  by (cases option) (auto simp: validateTxOption'_def default_option_def)

subsection \<open>The memoized contract\<close>

lemma memo_hit:
  "contract' s = Some c \<Longrightarrow> getContract_with this f s = (Fulfilled c, s, [])"
  by (simp add: getContract_with_def getContract_start_def)

lemma memo_set:
  "getContract_with this f s = (Fulfilled c, s1, cs) \<Longrightarrow>
   contract' s1 = Some c \<and> length (filter is_getABI cs) \<le> 1"
  by (auto simp: getContract_with_def getContract_start_def getContract_then_def
      getContract'_def split: option.splits sum.splits)

lemma seq_fixed:
  "contract' s = Some c \<Longrightarrow> getContract_seq this fs s = (s, [])"
  by (induction fs) (simp_all add: memo_hit)

section \<open>The claims\<close>

text \<open>
  C1. The claim: a write-mode build on the Child side whose merged config carries a
  dynamic fee field, while the Child side does not support the dynamic fee market, fails
  with the protocol-mismatch error before any network resolution. The code does the
  opposite. With \<open>{from: "0xA", maxFeePerGas: 30}\<close> on a Child side that answers
  "not supported", the build is not rejected with that error and issues all four
  resolutions; the same input on a Child side that answers "supported" is the one
  rejected with "Child chain doesn't support eip-1559".
\<close>

theorem child_unsupported_dynamic_fee_build:
  "fst (createTransactionConfig (stub_token False False)
          (JObj [''from'' \<mapsto> JStr ''0xA'', ''maxFeePerGas'' \<mapsto> JNum 30]) None False True
          (stub_state Map.empty Map.empty)) \<noteq> Inl ChildChainNoEIP1559
   \<and> snd (snd (createTransactionConfig (stub_token False False)
          (JObj [''from'' \<mapsto> JStr ''0xA'', ''maxFeePerGas'' \<mapsto> JNum 30]) None False True
          (stub_state Map.empty Map.empty))) =
       [CallLog ''txConfig'', CallIsEIP1559Supported False,
        CallEstimateGas False [''from'' \<mapsto> JStr ''0xA'', ''value'' \<mapsto> JUndefined],
        CallGetGasPrice False,
        CallGetTransactionCount False (JStr ''0xA'') ''pending'',
        CallGetChainId False, CallLog ''options filled'']
   \<and> fst (createTransactionConfig (stub_token False True)
          (JObj [''from'' \<mapsto> JStr ''0xA'', ''maxFeePerGas'' \<mapsto> JNum 30]) None False True
          (stub_state Map.empty Map.empty)) = Inl ChildChainNoEIP1559"
  by (simp add: stub_defs build_defs)

text \<open>
  C2, as amended. For a write-mode build that no other build on the same side overlaps,
  the fee fields of the built config follow from the support flag and the merged config
  (the caller's option over the side's defaults), and no field is ever removed. Without
  support, \<open>gasPrice\<close> holds \<open>Number\<close> of the resolved price (the merged \<open>gasPrice\<close> when
  truthy, else what \<open>getGasPrice\<close> gave), an integer only when that price converts to
  one, and the two dynamic fee fields are exactly as in the merged config: absent if
  neither the caller nor the defaults had them, kept otherwise. With support, both
  dynamic fee keys are present with their merged values (\<open>undefined\<close> when there were
  none) and \<open>gasPrice\<close> is exactly as in the merged config: absent if neither the caller
  nor the defaults had it.
\<close>

theorem fee_fields_of_built_config:
  assumes "fst (createTransactionConfig this txConfig meth isParent True s) = Inr config"
  shows "if isEIP1559Supported (client this) isParent
         then config ''maxFeePerGas'' =
                Some (getprop (merged_txConfig isParent txConfig s) ''maxFeePerGas'')
            \<and> config ''maxPriorityFeePerGas'' =
                Some (getprop (merged_txConfig isParent txConfig s) ''maxPriorityFeePerGas'')
            \<and> config ''gasPrice'' = merged_txConfig isParent txConfig s ''gasPrice''
         else (\<exists>price. fst (resolve_gasPrice (getClient this isParent) isParent
                               (merged_txConfig isParent txConfig s)) = Inr price
                      \<and> config ''gasPrice'' = Some (Number this price))
            \<and> config ''maxFeePerGas'' = merged_txConfig isParent txConfig s ''maxFeePerGas''
            \<and> config ''maxPriorityFeePerGas'' =
                merged_txConfig isParent txConfig s ''maxPriorityFeePerGas''"
proof -
  from build_write_config [OF assms] obtain r where
    all: "Promise_all4 (settle_order (getClient this isParent))
          (fst (resolve_gasLimit (getClient this isParent) meth isParent
                  (merged_txConfig isParent txConfig s)))
          (fst (resolve_gasPrice (getClient this isParent) isParent
                  (merged_txConfig isParent txConfig s)))
          (fst (resolve_nonce (getClient this isParent) isParent
                  (merged_txConfig isParent txConfig s)))
          (fst (resolve_chainId (getClient this isParent) isParent
                  (merged_txConfig isParent txConfig s))) = Inr r"
    and config: "config = fill_options (Number this) (isEIP1559Supported (client this) isParent)
          (getprop (merged_txConfig isParent txConfig s) ''maxFeePerGas'')
          (getprop (merged_txConfig isParent txConfig s) ''maxPriorityFeePerGas'') r
          (merged_txConfig isParent txConfig s)"
    by blast
  from Promise_all4_Inr [OF all] obtain w x y z where
    price: "fst (resolve_gasPrice (getClient this isParent) isParent
              (merged_txConfig isParent txConfig s)) = Inr x"
    and r: "r = (w, x, y, z)"
    by blast
  show ?thesis
    using price by (simp add: config r fill_options_def Let_def)
qed

text \<open>
  A Parent-side write of \<open>{from: "0xA"}\<close> without support, the defaults holding
  \<open>{maxFeePerGas: 30}\<close>: the config has the legacy price, the default's \<open>maxFeePerGas\<close>
  as merged, and no \<open>maxPriorityFeePerGas\<close>.
\<close>

theorem fee_fields_of_built_config_witness:
  "fst (createTransactionConfig (stub_token True False)
          (JObj [''from'' \<mapsto> JStr ''0xA'']) None True True
          (stub_state [''maxFeePerGas'' \<mapsto> JNum 30] Map.empty)) =
     Inr [''maxFeePerGas'' \<mapsto> JNum 30, ''from'' \<mapsto> JStr ''0xA'', ''gasLimit'' \<mapsto> JNum 21000,
          ''nonce'' \<mapsto> JNum 5, ''chainId'' \<mapsto> JNum 137, ''gasPrice'' \<mapsto> JNum 1000]
   \<and> [''maxFeePerGas'' \<mapsto> JNum 30, ''from'' \<mapsto> JStr ''0xA'', ''gasLimit'' \<mapsto> JNum 21000,
       ''nonce'' \<mapsto> JNum 5, ''chainId'' \<mapsto> JNum 137, ''gasPrice'' \<mapsto> JNum 1000] ''gasPrice'' =
     Some (Number (stub_token True False) (JNum 1000))
   \<and> [''maxFeePerGas'' \<mapsto> JNum 30, ''from'' \<mapsto> JStr ''0xA'', ''gasLimit'' \<mapsto> JNum 21000,
       ''nonce'' \<mapsto> JNum 5, ''chainId'' \<mapsto> JNum 137, ''gasPrice'' \<mapsto> JNum 1000]
       ''maxFeePerGas'' =
     merged_txConfig True (JObj [''from'' \<mapsto> JStr ''0xA''])
       (stub_state [''maxFeePerGas'' \<mapsto> JNum 30] Map.empty) ''maxFeePerGas''
   \<and> merged_txConfig True (JObj [''from'' \<mapsto> JStr ''0xA''])
       (stub_state [''maxFeePerGas'' \<mapsto> JNum 30] Map.empty) ''maxFeePerGas'' = Some (JNum 30)
   \<and> merged_txConfig True (JObj [''from'' \<mapsto> JStr ''0xA''])
       (stub_state [''maxFeePerGas'' \<mapsto> JNum 30] Map.empty) ''maxPriorityFeePerGas'' = None"
proof -
  have b: "fst (createTransactionConfig (stub_token True False)
          (JObj [''from'' \<mapsto> JStr ''0xA'']) None True True
          (stub_state [''maxFeePerGas'' \<mapsto> JNum 30] Map.empty)) =
     Inr [''maxFeePerGas'' \<mapsto> JNum 30, ''from'' \<mapsto> JStr ''0xA'', ''gasLimit'' \<mapsto> JNum 21000,
          ''nonce'' \<mapsto> JNum 5, ''chainId'' \<mapsto> JNum 137, ''gasPrice'' \<mapsto> JNum 1000]"
    by (simp add: stub_defs build_defs)
  from fee_fields_of_built_config [OF b] show ?thesis
    using b by (simp add: stub_defs build_defs)
qed

text \<open>
  The claim as stated fails four ways. Without support (Parent side), a caller's
  \<open>maxFeePerGas\<close> stays in the built config beside the legacy price. With support and no
  gas field from the caller, a \<open>gasPrice\<close> of the defaults stays in the built config
  beside the dynamic fee keys. Without support, a caller's \<open>gasPrice\<close> of \<open>"fast"\<close> is
  written back as \<open>NaN\<close>, no integer. And with support, a build of \<open>{from: "0xA"}\<close> whose
  first part has run is overlapped by a build of \<open>{from: "0xB", gasPrice: 9}\<close> on the
  same side: the second build's first part writes its option into the shared default
  record, and the first build, resumed, fills and returns that record, with the sender
  and the legacy \<open>gasPrice\<close> of the other build beside its dynamic fee keys.
\<close>

theorem fee_fields_not_exclusive:
  "fst (createTransactionConfig (stub_token True False)
          (JObj [''from'' \<mapsto> JStr ''0xA'', ''maxFeePerGas'' \<mapsto> JNum 30]) None True True
          (stub_state Map.empty Map.empty)) =
     Inr [''from'' \<mapsto> JStr ''0xA'', ''maxFeePerGas'' \<mapsto> JNum 30, ''gasLimit'' \<mapsto> JNum 21000,
          ''nonce'' \<mapsto> JNum 5, ''chainId'' \<mapsto> JNum 137, ''gasPrice'' \<mapsto> JNum 1000]
   \<and> fst (createTransactionConfig (stub_token True True)
          (JObj [''from'' \<mapsto> JStr ''0xA'']) None True True
          (stub_state [''gasPrice'' \<mapsto> JNum 7] Map.empty)) =
     Inr [''gasPrice'' \<mapsto> JNum 7, ''from'' \<mapsto> JStr ''0xA'', ''gasLimit'' \<mapsto> JNum 21000,
          ''nonce'' \<mapsto> JNum 5, ''chainId'' \<mapsto> JNum 137, ''maxFeePerGas'' \<mapsto> JUndefined,
          ''maxPriorityFeePerGas'' \<mapsto> JUndefined]
   \<and> fst (createTransactionConfig (stub_token True False)
          (JObj [''from'' \<mapsto> JStr ''0xA'', ''gasPrice'' \<mapsto> JStr ''fast'']) None True True
          (stub_state Map.empty Map.empty)) =
     Inr [''from'' \<mapsto> JStr ''0xA'', ''gasPrice'' \<mapsto> JNaN, ''gasLimit'' \<mapsto> JNum 21000,
          ''nonce'' \<mapsto> JNum 5, ''chainId'' \<mapsto> JNum 137]
   \<and> createTransactionConfig_start (stub_token True True)
          (JObj [''from'' \<mapsto> JStr ''0xA'']) None True True
          (stub_state Map.empty Map.empty) =
       (Awaiting \<lparr>pb_isParent = True, pb_isEIP1559 = True, pb_maxFeePerGas = JUndefined,
                  pb_maxPriorityFeePerGas = JUndefined,
                  pb_settled = Inr (JNum 21000, JNum 1000, JNum 5, JNum 137)\<rparr>,
        stub_state [''from'' \<mapsto> JStr ''0xA''] Map.empty,
        [CallLog ''txConfig'', CallIsEIP1559Supported True,
         CallEstimateGas True [''from'' \<mapsto> JStr ''0xA'', ''value'' \<mapsto> JUndefined],
         CallGetGasPrice True,
         CallGetTransactionCount True (JStr ''0xA'') ''pending'',
         CallGetChainId True])
   \<and> fst (snd (createTransactionConfig_start (stub_token True True)
          (JObj [''from'' \<mapsto> JStr ''0xB'', ''gasPrice'' \<mapsto> JNum 9]) None True True
          (stub_state [''from'' \<mapsto> JStr ''0xA''] Map.empty))) =
       stub_state [''from'' \<mapsto> JStr ''0xB'', ''gasPrice'' \<mapsto> JNum 9] Map.empty
   \<and> createTransactionConfig_resume (stub_token True True)
          \<lparr>pb_isParent = True, pb_isEIP1559 = True, pb_maxFeePerGas = JUndefined,
           pb_maxPriorityFeePerGas = JUndefined,
           pb_settled = Inr (JNum 21000, JNum 1000, JNum 5, JNum 137)\<rparr>
          (stub_state [''from'' \<mapsto> JStr ''0xB'', ''gasPrice'' \<mapsto> JNum 9] Map.empty) =
       (Inr True,
        stub_state [''from'' \<mapsto> JStr ''0xB'', ''gasPrice'' \<mapsto> JNum 9,
                    ''gasLimit'' \<mapsto> JNum 21000, ''nonce'' \<mapsto> JNum 5, ''chainId'' \<mapsto> JNum 137,
                    ''maxFeePerGas'' \<mapsto> JUndefined, ''maxPriorityFeePerGas'' \<mapsto> JUndefined]
          Map.empty,
        [CallLog ''options filled''])"
  apply (simp add: stub_defs build_defs number_defs createTransactionConfig_start_def
      createTransactionConfig_resume_def)
  apply (auto simp: fun_eq_iff)
  done




text \<open>
  C4. The claim: a build never writes into the stored default record, so a later build
  sees the same defaults. The code assigns the caller's option into the default record
  itself and then writes the resolved fields into it. Child defaults \<open>{from: "0xD"}\<close> and
  option \<open>{from: "0xA", nonce: 7}\<close>: after the build the stored Child defaults hold the
  caller's sender and nonce and the resolved gas limit, chain id and gas price; a second
  build with the empty option then finds every field already set and resolves nothing.
\<close>

theorem default_record_overwritten:
  "childDefaultConfig (stub_state Map.empty [''from'' \<mapsto> JStr ''0xD'']) =
     [''from'' \<mapsto> JStr ''0xD'']
   \<and> childDefaultConfig (fst (snd (createTransactionConfig (stub_token False False)
          (JObj [''from'' \<mapsto> JStr ''0xA'', ''nonce'' \<mapsto> JNum 7]) None False True
          (stub_state Map.empty [''from'' \<mapsto> JStr ''0xD''])))) =
       [''from'' \<mapsto> JStr ''0xA'', ''nonce'' \<mapsto> JNum 7, ''gasLimit'' \<mapsto> JNum 21000,
        ''chainId'' \<mapsto> JNum 137, ''gasPrice'' \<mapsto> JNum 1000]
   \<and> filter is_resolution (snd (snd (createTransactionConfig (stub_token False False)
          (JObj Map.empty) None False True
          (fst (snd (createTransactionConfig (stub_token False False)
             (JObj [''from'' \<mapsto> JStr ''0xA'', ''nonce'' \<mapsto> JNum 7]) None False True
             (stub_state Map.empty [''from'' \<mapsto> JStr ''0xD'']))))))) = []"
  apply (simp add: stub_defs build_defs is_resolution_def)
  apply (auto simp: fun_eq_iff)
  done

text \<open>
  C5, as amended. For every option that is an array or whose \<open>typeof\<close> is not "object",
  other than \<open>undefined\<close>, each of the four operations throws the validation error
  synchronously, leaves the state as it was and issues no call at all. (An \<open>undefined\<close>
  option is replaced by the empty record before validation and is accepted.)
\<close>

theorem invalid_option_rejected:
  assumes "option \<noteq> JUndefined"
      and "typeof option \<noteq> ''object'' \<or> Array_isArray option"
  shows "processWrite this meth option s = (Thrown TransactionOptionNotObject, s, [])
       \<and> sendTransaction this option s = (Thrown TransactionOptionNotObject, s, [])
       \<and> readTransaction this option s = (Thrown TransactionOptionNotObject, s, [])
       \<and> processRead this meth option s = (Thrown TransactionOptionNotObject, s, [])"
  using invalid_option [OF assms]
  by (simp add: processWrite_alone sendTransaction_alone readTransaction_alone processRead_alone Let_def)

theorem invalid_option_rejected_witness:
  "JArr [JNum 1] \<noteq> JUndefined \<and> Array_isArray (JArr [JNum 1])
   \<and> processWrite (stub_token False False) stub_method (JArr [JNum 1])
       (stub_state Map.empty Map.empty) =
     (Thrown TransactionOptionNotObject, stub_state Map.empty Map.empty, [])
   \<and> sendTransaction (stub_token False False) (JArr [JNum 1])
       (stub_state Map.empty Map.empty) =
     (Thrown TransactionOptionNotObject, stub_state Map.empty Map.empty, [])
   \<and> readTransaction (stub_token False False) (JArr [JNum 1])
       (stub_state Map.empty Map.empty) =
     (Thrown TransactionOptionNotObject, stub_state Map.empty Map.empty, [])
   \<and> processRead (stub_token False False) stub_method (JArr [JNum 1])
       (stub_state Map.empty Map.empty) =
     (Thrown TransactionOptionNotObject, stub_state Map.empty Map.empty, [])"
  using invalid_option_rejected
    [of "JArr [JNum 1]" "stub_token False False" stub_method "stub_state Map.empty Map.empty"]
  by simp

text \<open>
  The claim as stated fails at \<open>undefined\<close>, a non-object: the parameter default turns it
  into the empty record, validation passes, and \<open>processWrite\<close> goes on to resolve the
  four fields and to write.
\<close>

theorem undefined_option_accepted:
  "typeof JUndefined \<noteq> ''object''
   \<and> fst (processWrite (stub_token False False) stub_method JUndefined
            (stub_state Map.empty Map.empty)) =
       Fulfilled (ContractWriteResult (JStr ''hash''))
   \<and> snd (snd (processWrite (stub_token False False) stub_method JUndefined
            (stub_state Map.empty Map.empty))) =
       [CallLog ''process write'', CallLog ''txConfig'', CallIsEIP1559Supported False,
        CallMethodEstimateGas [''from'' \<mapsto> JUndefined, ''value'' \<mapsto> JUndefined],
        CallGetGasPrice False,
        CallGetTransactionCount False JUndefined ''pending'',
        CallGetChainId False, CallLog ''options filled'', CallLog ''process write config'',
        CallMethodWrite [''gasLimit'' \<mapsto> JNum 50000,
          ''nonce'' \<mapsto> JNum 5, ''chainId'' \<mapsto> JNum 137, ''gasPrice'' \<mapsto> JNum 1000]]"
  by (simp add: stub_defs build_defs op_defs)

text \<open>
  C6, as amended. In a write-mode build in which the caller supplies a truthy gas limit,
  nonce and chain id (non-zero, non-empty), no call to \<open>estimateGas\<close>,
  \<open>getTransactionCount\<close> or \<open>getChainId\<close> is issued; the only network resolution is
  \<open>getGasPrice\<close>, issued once, exactly when the build is not stopped by the fee guard and
  the merged config (caller over defaults) has no truthy \<open>gasPrice\<close>.
\<close>

theorem explicit_fields_not_resolved:
  assumes "truthy (getprop (own_props txConfig) ''gasLimit'')"
      and "truthy (getprop (own_props txConfig) ''nonce'')"
      and "truthy (getprop (own_props txConfig) ''chainId'')"
  shows "filter is_resolution
           (snd (snd (createTransactionConfig this txConfig meth isParent True s))) =
         (if fee_guard this isParent (merged_txConfig isParent txConfig s)
             \<or> truthy (getprop (merged_txConfig isParent txConfig s) ''gasPrice'')
          then [] else [CallGetGasPrice isParent])"
proof (cases "fee_guard this isParent (merged_txConfig isParent txConfig s)")
  case True
  then show ?thesis by (simp add: build_guarded is_resolution_def)
next
  case False
  have "filter is_resolution
          (snd (snd (createTransactionConfig this txConfig meth isParent True s))) =
        filter is_resolution
          (resolution_calls (getClient this isParent) meth isParent
             (merged_txConfig isParent txConfig s))"
    by (rule build_write_filter [OF False]) (simp_all add: is_resolution_def)
  also have "\<dots> = (if truthy (getprop (merged_txConfig isParent txConfig s) ''gasPrice'')
                  then [] else [CallGetGasPrice isParent])"
    by (rule filter_resolution_explicit) (simp_all add: merged_caller_key assms)
  finally show ?thesis using False by simp
qed

theorem explicit_fields_not_resolved_witness:
  "truthy (getprop (own_props (JObj [''from'' \<mapsto> JStr ''0xA'', ''gasLimit'' \<mapsto> JNum 21000,
        ''nonce'' \<mapsto> JNum 5, ''chainId'' \<mapsto> JNum 137])) ''gasLimit'')
   \<and> truthy (getprop (own_props (JObj [''from'' \<mapsto> JStr ''0xA'', ''gasLimit'' \<mapsto> JNum 21000,
        ''nonce'' \<mapsto> JNum 5, ''chainId'' \<mapsto> JNum 137])) ''nonce'')
   \<and> truthy (getprop (own_props (JObj [''from'' \<mapsto> JStr ''0xA'', ''gasLimit'' \<mapsto> JNum 21000,
        ''nonce'' \<mapsto> JNum 5, ''chainId'' \<mapsto> JNum 137])) ''chainId'')
   \<and> filter is_resolution
       (snd (snd (createTransactionConfig (stub_token True True)
          (JObj [''from'' \<mapsto> JStr ''0xA'', ''gasLimit'' \<mapsto> JNum 21000,
                 ''nonce'' \<mapsto> JNum 5, ''chainId'' \<mapsto> JNum 137]) None True True
          (stub_state Map.empty Map.empty)))) = [CallGetGasPrice True]"
  using explicit_fields_not_resolved
    [of "JObj [''from'' \<mapsto> JStr ''0xA'', ''gasLimit'' \<mapsto> JNum 21000,
               ''nonce'' \<mapsto> JNum 5, ''chainId'' \<mapsto> JNum 137]"
        "stub_token True True" None True "stub_state Map.empty Map.empty"]
  by (simp add: stub_defs merged_txConfig_def fee_guard_def Object_assign_def
      defaultConfig_of_def getprop_def)

text \<open>
  The claim as stated fails three ways. An explicit nonce of 0 is falsy, so
  \<open>getTransactionCount\<close> is called all the same. With gas limit, nonce and chain id
  supplied and the gas price left out, \<open>getGasPrice\<close> is not called when the defaults
  carry a gas price, nor when the fee guard stops the build (Child side, support
  answered, a dynamic fee field supplied).
\<close>

theorem explicit_zero_nonce_resolved:
  "filter is_getTransactionCount
       (snd (snd (createTransactionConfig (stub_token True False)
          (JObj [''from'' \<mapsto> JStr ''0xA'', ''gasLimit'' \<mapsto> JNum 21000,
                 ''nonce'' \<mapsto> JNum 0, ''chainId'' \<mapsto> JNum 137]) None True True
          (stub_state Map.empty Map.empty)))) =
     [CallGetTransactionCount True (JStr ''0xA'') ''pending'']
   \<and> filter is_getGasPrice
       (snd (snd (createTransactionConfig (stub_token True False)
          (JObj [''from'' \<mapsto> JStr ''0xA'', ''gasLimit'' \<mapsto> JNum 21000,
                 ''nonce'' \<mapsto> JNum 5, ''chainId'' \<mapsto> JNum 137]) None True True
          (stub_state [''gasPrice'' \<mapsto> JNum 7] Map.empty)))) = []
   \<and> filter is_getGasPrice
       (snd (snd (createTransactionConfig (stub_token False True)
          (JObj [''from'' \<mapsto> JStr ''0xA'', ''gasLimit'' \<mapsto> JNum 21000,
                 ''nonce'' \<mapsto> JNum 5, ''chainId'' \<mapsto> JNum 137,
                 ''maxFeePerGas'' \<mapsto> JNum 30]) None False True
          (stub_state Map.empty Map.empty)))) = []"
  by (simp add: stub_defs build_defs)

text \<open>
  C7, as amended. When the return-unsent flag (\<open>returnTransaction\<close>) of the option record
  is set, \<open>readTransaction\<close> never calls \<open>client.read\<close>, and its callback returns the
  config the build produced: the side's default record as stored when the callback
  runs. That is not the bare merged config. When no other build overlaps, it is the
  merged config (the caller's keys over the defaults, default-only keys passing through)
  with \<open>gasLimit\<close> as \<open>Number\<close> of the resolved gas limit, \<open>nonce\<close>, \<open>chainId\<close> and the fee
  fields of the write-mode build written into it, after the resolutions the build
  issues; and the operation is rejected when the build is, by the fee guard or by a
  resolution that fails.
\<close>

theorem readTransaction_returns_unsent_config:
  assumes "truthy (getprop m ''returnTransaction'')"
  shows "fst (readTransaction this (JObj m) s) =
           (if fee_guard this (cp_isParent (contractParam this))
                 (merged_txConfig (cp_isParent (contractParam this)) (JObj m) s)
            then Rejected ChildChainNoEIP1559
            else case Promise_all4
                   (settle_order (getClient this (cp_isParent (contractParam this))))
                   (fst (resolve_gasLimit (getClient this (cp_isParent (contractParam this))) None
                           (cp_isParent (contractParam this))
                           (merged_txConfig (cp_isParent (contractParam this)) (JObj m) s)))
                   (fst (resolve_gasPrice (getClient this (cp_isParent (contractParam this)))
                           (cp_isParent (contractParam this))
                           (merged_txConfig (cp_isParent (contractParam this)) (JObj m) s)))
                   (fst (resolve_nonce (getClient this (cp_isParent (contractParam this)))
                           (cp_isParent (contractParam this))
                           (merged_txConfig (cp_isParent (contractParam this)) (JObj m) s)))
                   (fst (resolve_chainId (getClient this (cp_isParent (contractParam this)))
                           (cp_isParent (contractParam this))
                           (merged_txConfig (cp_isParent (contractParam this)) (JObj m) s))) of
                   Inl e \<Rightarrow> Rejected e
                 | Inr r \<Rightarrow>
                     Fulfilled (Config
                       (fill_options (Number this)
                          (isEIP1559Supported (client this) (cp_isParent (contractParam this)))
                          (getprop (merged_txConfig (cp_isParent (contractParam this)) (JObj m) s)
                             ''maxFeePerGas'')
                          (getprop (merged_txConfig (cp_isParent (contractParam this)) (JObj m) s)
                             ''maxPriorityFeePerGas'')
                          r (merged_txConfig (cp_isParent (contractParam this)) (JObj m) s))))
       \<and> merged_txConfig (cp_isParent (contractParam this)) (JObj m) s k =
           (case m k of
              Some v \<Rightarrow> Some v
            | None \<Rightarrow> defaultConfig_of (cp_isParent (contractParam this)) s k)
       \<and> filter is_read (snd (snd (readTransaction this (JObj m) s))) = []
       \<and> readTransaction_then this (JObj m) p st =
           (Fulfilled (Config (defaultConfig_of p st)), [CallLog ''write tx config created''])"
proof -
  obtain r s1 cs1 where b: "createTransactionConfig this (JObj m) None
                        (cp_isParent (contractParam this)) True s = (r, s1, cs1)"
    by (cases "createTransactionConfig this (JObj m) None
                        (cp_isParent (contractParam this)) True s") auto
  from build_calls_no_read [of this "JObj m" None "cp_isParent (contractParam this)" True s]
  have nr: "filter is_read cs1 = []" by (simp add: b)
  have res: "fst (readTransaction this (JObj m) s) =
      (case r of Inl e \<Rightarrow> Rejected e | Inr config \<Rightarrow> Fulfilled (Config config))"
    using assms
    by (cases r) (simp_all add: readTransaction_alone default_option_def validateTxOption'_def
        Let_def b)
  have calls: "filter is_read (snd (snd (readTransaction this (JObj m) s))) = []"
    using assms nr
    by (cases r) (simp_all add: readTransaction_alone default_option_def validateTxOption'_def
        Let_def b)
  have cb: "readTransaction_then this (JObj m) p st =
           (Fulfilled (Config (defaultConfig_of p st)), [CallLog ''write tx config created''])"
    using assms by (simp add: readTransaction_then_def Let_def)
  from b have "r = fst (createTransactionConfig this (JObj m) None
                        (cp_isParent (contractParam this)) True s)" by simp
  then have r: "r = (if fee_guard this (cp_isParent (contractParam this))
                 (merged_txConfig (cp_isParent (contractParam this)) (JObj m) s)
            then Inl ChildChainNoEIP1559
            else case Promise_all4
                   (settle_order (getClient this (cp_isParent (contractParam this))))
                   (fst (resolve_gasLimit (getClient this (cp_isParent (contractParam this))) None
                           (cp_isParent (contractParam this))
                           (merged_txConfig (cp_isParent (contractParam this)) (JObj m) s)))
                   (fst (resolve_gasPrice (getClient this (cp_isParent (contractParam this)))
                           (cp_isParent (contractParam this))
                           (merged_txConfig (cp_isParent (contractParam this)) (JObj m) s)))
                   (fst (resolve_nonce (getClient this (cp_isParent (contractParam this)))
                           (cp_isParent (contractParam this))
                           (merged_txConfig (cp_isParent (contractParam this)) (JObj m) s)))
                   (fst (resolve_chainId (getClient this (cp_isParent (contractParam this)))
                           (cp_isParent (contractParam this))
                           (merged_txConfig (cp_isParent (contractParam this)) (JObj m) s))) of
                   Inl e \<Rightarrow> Inl e
                 | Inr r \<Rightarrow>
                     Inr (fill_options (Number this)
                          (isEIP1559Supported (client this) (cp_isParent (contractParam this)))
                          (getprop (merged_txConfig (cp_isParent (contractParam this)) (JObj m) s)
                             ''maxFeePerGas'')
                          (getprop (merged_txConfig (cp_isParent (contractParam this)) (JObj m) s)
                             ''maxPriorityFeePerGas'')
                          r (merged_txConfig (cp_isParent (contractParam this)) (JObj m) s)))"
    by (simp only: build_write_result)
  have mg: "merged_txConfig (cp_isParent (contractParam this)) (JObj m) s k =
           (case m k of
              Some v \<Rightarrow> Some v
            | None \<Rightarrow> defaultConfig_of (cp_isParent (contractParam this)) s k)"
    by (simp add: merged_txConfig_def Object_assign_def map_add_def)
  show ?thesis
    by (simp add: res calls cb mg) (simp add: r split: sum.splits)
qed

text \<open>
  The spec's scenario, \<open>{from: "0xA", returnTransaction: true}\<close>, on the Child side with
  defaults \<open>{from: "0xD", value: "0"}\<close>: the caller's sender wins, the default value
  passes through, and the four resolved fields are added.
\<close>

theorem readTransaction_returns_unsent_config_witness:
  "truthy (getprop [''from'' \<mapsto> JStr ''0xA'', ''returnTransaction'' \<mapsto> JBool True]
             ''returnTransaction'')
   \<and> merged_txConfig False
        (JObj [''from'' \<mapsto> JStr ''0xA'', ''returnTransaction'' \<mapsto> JBool True])
        (stub_state Map.empty [''from'' \<mapsto> JStr ''0xD'', ''value'' \<mapsto> JStr ''0'']) ''from'' =
      Some (JStr ''0xA'')
   \<and> merged_txConfig False
        (JObj [''from'' \<mapsto> JStr ''0xA'', ''returnTransaction'' \<mapsto> JBool True])
        (stub_state Map.empty [''from'' \<mapsto> JStr ''0xD'', ''value'' \<mapsto> JStr ''0'']) ''value'' =
      Some (JStr ''0'')
   \<and> fst (readTransaction (stub_token False False)
        (JObj [''from'' \<mapsto> JStr ''0xA'', ''returnTransaction'' \<mapsto> JBool True])
        (stub_state Map.empty [''from'' \<mapsto> JStr ''0xD'', ''value'' \<mapsto> JStr ''0''])) =
      Fulfilled (Config [''from'' \<mapsto> JStr ''0xA'', ''value'' \<mapsto> JStr ''0'',
        ''returnTransaction'' \<mapsto> JBool True,
        ''gasLimit'' \<mapsto> JNum 21000, ''nonce'' \<mapsto> JNum 5, ''chainId'' \<mapsto> JNum 137,
        ''gasPrice'' \<mapsto> JNum 1000])
   \<and> filter is_read (snd (snd (readTransaction (stub_token False False)
        (JObj [''from'' \<mapsto> JStr ''0xA'', ''returnTransaction'' \<mapsto> JBool True])
        (stub_state Map.empty [''from'' \<mapsto> JStr ''0xD'', ''value'' \<mapsto> JStr ''0''])))) = []"
proof -
  have h: "truthy (getprop [''from'' \<mapsto> JStr ''0xA'', ''returnTransaction'' \<mapsto> JBool True]
             ''returnTransaction'')"
    by (simp add: getprop_def)
  have e1: "merged_txConfig False
        (JObj [''from'' \<mapsto> JStr ''0xA'', ''returnTransaction'' \<mapsto> JBool True])
        (stub_state Map.empty [''from'' \<mapsto> JStr ''0xD'', ''value'' \<mapsto> JStr ''0'']) ''from'' =
      Some (JStr ''0xA'')"
    by (simp add: stub_defs merged_txConfig_def Object_assign_def defaultConfig_of_def)
  have e2: "merged_txConfig False
        (JObj [''from'' \<mapsto> JStr ''0xA'', ''returnTransaction'' \<mapsto> JBool True])
        (stub_state Map.empty [''from'' \<mapsto> JStr ''0xD'', ''value'' \<mapsto> JStr ''0'']) ''value'' =
      Some (JStr ''0'')"
    by (simp add: stub_defs merged_txConfig_def Object_assign_def defaultConfig_of_def)
  have "fst (readTransaction (stub_token False False)
        (JObj [''from'' \<mapsto> JStr ''0xA'', ''returnTransaction'' \<mapsto> JBool True])
        (stub_state Map.empty [''from'' \<mapsto> JStr ''0xD'', ''value'' \<mapsto> JStr ''0''])) =
      Fulfilled (Config [''from'' \<mapsto> JStr ''0xA'', ''value'' \<mapsto> JStr ''0'',
        ''returnTransaction'' \<mapsto> JBool True,
        ''gasLimit'' \<mapsto> JNum 21000, ''nonce'' \<mapsto> JNum 5, ''chainId'' \<mapsto> JNum 137,
        ''gasPrice'' \<mapsto> JNum 1000])
   \<and> filter is_read (snd (snd (readTransaction (stub_token False False)
        (JObj [''from'' \<mapsto> JStr ''0xA'', ''returnTransaction'' \<mapsto> JBool True])
        (stub_state Map.empty [''from'' \<mapsto> JStr ''0xD'', ''value'' \<mapsto> JStr ''0''])))) = []"
    apply (simp add: stub_defs build_defs op_defs)
    apply (auto simp: fun_eq_iff)
    done
  with readTransaction_returns_unsent_config
    [OF h, of "stub_token False False"
        "stub_state Map.empty [''from'' \<mapsto> JStr ''0xD'', ''value'' \<mapsto> JStr ''0'']"]
    h e1 e2
  show ?thesis by simp
qed

text \<open>
  The claim as stated fails: for \<open>{from: "0xA", returnTransaction: true}\<close> on empty
  defaults the merged config is the option itself, while what \<open>readTransaction\<close> returns
  has gas limit, nonce, chain id and gas price added, after four calls to the client.
\<close>

theorem readTransaction_returns_filled_config:
  "merged_txConfig False
        (JObj [''from'' \<mapsto> JStr ''0xA'', ''returnTransaction'' \<mapsto> JBool True])
        (stub_state Map.empty Map.empty) =
     [''from'' \<mapsto> JStr ''0xA'', ''returnTransaction'' \<mapsto> JBool True]
   \<and> fst (readTransaction (stub_token False False)
        (JObj [''from'' \<mapsto> JStr ''0xA'', ''returnTransaction'' \<mapsto> JBool True])
        (stub_state Map.empty Map.empty)) =
      Fulfilled (Config [''from'' \<mapsto> JStr ''0xA'', ''returnTransaction'' \<mapsto> JBool True,
        ''gasLimit'' \<mapsto> JNum 21000, ''nonce'' \<mapsto> JNum 5, ''chainId'' \<mapsto> JNum 137,
        ''gasPrice'' \<mapsto> JNum 1000])
   \<and> [''from'' \<mapsto> JStr ''0xA'', ''returnTransaction'' \<mapsto> JBool True,
        ''gasLimit'' \<mapsto> JNum 21000, ''nonce'' \<mapsto> JNum 5, ''chainId'' \<mapsto> JNum 137,
        ''gasPrice'' \<mapsto> JNum 1000] \<noteq>
      [''from'' \<mapsto> JStr ''0xA'', ''returnTransaction'' \<mapsto> JBool True]
   \<and> filter is_resolution (snd (snd (readTransaction (stub_token False False)
        (JObj [''from'' \<mapsto> JStr ''0xA'', ''returnTransaction'' \<mapsto> JBool True])
        (stub_state Map.empty Map.empty)))) =
     [CallEstimateGas False [''from'' \<mapsto> JStr ''0xA'', ''value'' \<mapsto> JUndefined],
      CallGetGasPrice False,
      CallGetTransactionCount False (JStr ''0xA'') ''pending'',
      CallGetChainId False]"
proof -
  have "[''from'' \<mapsto> JStr ''0xA'', ''returnTransaction'' \<mapsto> JBool True,
        ''gasLimit'' \<mapsto> JNum 21000, ''nonce'' \<mapsto> JNum 5, ''chainId'' \<mapsto> JNum 137,
        ''gasPrice'' \<mapsto> JNum 1000] ''gasLimit'' \<noteq>
      [''from'' \<mapsto> JStr ''0xA'', ''returnTransaction'' \<mapsto> JBool True] ''gasLimit''"
    by simp
  then have ne: "[''from'' \<mapsto> JStr ''0xA'', ''returnTransaction'' \<mapsto> JBool True,
        ''gasLimit'' \<mapsto> JNum 21000, ''nonce'' \<mapsto> JNum 5, ''chainId'' \<mapsto> JNum 137,
        ''gasPrice'' \<mapsto> JNum 1000] \<noteq>
      [''from'' \<mapsto> JStr ''0xA'', ''returnTransaction'' \<mapsto> JBool True]"
    by metis
  show ?thesis
    apply (intro conjI)
       apply (simp add: stub_defs build_defs)
      apply (simp add: stub_defs build_defs op_defs)
     apply (rule ne)
    apply (simp add: stub_defs build_defs op_defs is_resolution_def)
    done
qed

text \<open>
  C8, as amended. When the calls to \<open>getContract\<close> do not overlap (each is run to its end
  before the next is made): once a call has been fulfilled with a contract, every later
  call, after any number of calls in between, is fulfilled with that same contract,
  leaves the state as it is and issues no call, so no further ABI fetch; and the
  fulfilled call itself issued at most one fetch.
\<close>

theorem getContract_memoized:
  assumes "getContract_with this f s = (Fulfilled c, s1, cs)"
      and "getContract_seq this fs s1 = (s2, cs2)"
  shows "getContract_with this g s2 = (Fulfilled c, s2, [])
       \<and> getContract this s2 = (Fulfilled c, s2, [])
       \<and> cs2 = [] \<and> length (filter is_getABI cs) \<le> 1"
proof -
  from memo_set [OF assms(1)] have c: "contract' s1 = Some c"
    and n: "length (filter is_getABI cs) \<le> 1" by simp_all
  from seq_fixed [OF c, of this fs] assms(2) have "s2 = s1" and "cs2 = []" by simp_all
  with c n show ?thesis by (simp add: memo_hit getContract_def)
qed

text \<open>
  A first call that fetches the ABI and builds contract 0, two more calls whose fetches
  (had they been issued) would fail and give another ABI, then a fourth call.
\<close>

theorem getContract_memoized_witness:
  "getContract_with (stub_token False False) (Inr (JStr ''abi''))
     (stub_state Map.empty Map.empty) =
     (Fulfilled \<lparr>contract_ref = 0, contract_address = JStr ''0xT'', contract_abi = JStr ''abi''\<rparr>,
      \<lparr>parentDefaultConfig = Map.empty, childDefaultConfig = Map.empty,
       contract' = Some \<lparr>contract_ref = 0, contract_address = JStr ''0xT'',
                         contract_abi = JStr ''abi''\<rparr>,
       built = 1\<rparr>,
      [CallGetABI (JStr ''ChildERC20'') (JStr ''pos''),
       CallGetContract False (JStr ''0xT'') (JStr ''abi'')])
   \<and> getContract_seq (stub_token False False) [Inl (Upstream JNull), Inr (JStr ''abi2'')]
       \<lparr>parentDefaultConfig = Map.empty, childDefaultConfig = Map.empty,
        contract' = Some \<lparr>contract_ref = 0, contract_address = JStr ''0xT'',
                          contract_abi = JStr ''abi''\<rparr>,
        built = 1\<rparr> =
     (\<lparr>parentDefaultConfig = Map.empty, childDefaultConfig = Map.empty,
       contract' = Some \<lparr>contract_ref = 0, contract_address = JStr ''0xT'',
                         contract_abi = JStr ''abi''\<rparr>,
       built = 1\<rparr>, [])
   \<and> getContract (stub_token False False)
       \<lparr>parentDefaultConfig = Map.empty, childDefaultConfig = Map.empty,
        contract' = Some \<lparr>contract_ref = 0, contract_address = JStr ''0xT'',
                          contract_abi = JStr ''abi''\<rparr>,
        built = 1\<rparr> =
     (Fulfilled \<lparr>contract_ref = 0, contract_address = JStr ''0xT'', contract_abi = JStr ''abi''\<rparr>,
      \<lparr>parentDefaultConfig = Map.empty, childDefaultConfig = Map.empty,
       contract' = Some \<lparr>contract_ref = 0, contract_address = JStr ''0xT'',
                         contract_abi = JStr ''abi''\<rparr>,
       built = 1\<rparr>, [])"
proof -
  have a: "getContract_with (stub_token False False) (Inr (JStr ''abi''))
     (stub_state Map.empty Map.empty) =
     (Fulfilled \<lparr>contract_ref = 0, contract_address = JStr ''0xT'', contract_abi = JStr ''abi''\<rparr>,
      \<lparr>parentDefaultConfig = Map.empty, childDefaultConfig = Map.empty,
       contract' = Some \<lparr>contract_ref = 0, contract_address = JStr ''0xT'',
                         contract_abi = JStr ''abi''\<rparr>,
       built = 1\<rparr>,
      [CallGetABI (JStr ''ChildERC20'') (JStr ''pos''),
       CallGetContract False (JStr ''0xT'') (JStr ''abi'')])"
    by (simp add: stub_defs getContract_with_def getContract_start_def getContract_then_def
        getContract'_def)
  have b: "getContract_seq (stub_token False False) [Inl (Upstream JNull), Inr (JStr ''abi2'')]
       \<lparr>parentDefaultConfig = Map.empty, childDefaultConfig = Map.empty,
        contract' = Some \<lparr>contract_ref = 0, contract_address = JStr ''0xT'',
                          contract_abi = JStr ''abi''\<rparr>,
        built = 1\<rparr> =
     (\<lparr>parentDefaultConfig = Map.empty, childDefaultConfig = Map.empty,
       contract' = Some \<lparr>contract_ref = 0, contract_address = JStr ''0xT'',
                         contract_abi = JStr ''abi''\<rparr>,
       built = 1\<rparr>, [])"
    by (simp add: stub_defs getContract_with_def getContract_start_def)
  from getContract_memoized [OF a b] a b show ?thesis by simp
qed

text \<open>
  The claim as stated fails when calls overlap. Two calls made before either fetch
  settles each find no contract and each issue a fetch (the first part of a call does
  not change the state, so both run on the initial state). The first fetch settles:
  contract 0 is built and stored, and a call made now returns it. The second fetch
  settles: contract 1 is built and stored over it, and a call made now returns
  contract 1. Both overlapping calls are fulfilled, with two ABI fetches between them,
  and two calls made after the first successful resolution return different instances.
\<close>

theorem getContract_overlapping_calls:
  "getContract_start (stub_token False False) (stub_state Map.empty Map.empty) =
     (None, [CallGetABI (JStr ''ChildERC20'') (JStr ''pos'')])
   \<and> fst (getContract_then (stub_token False False) (Inr (JStr ''abi''))
            (stub_state Map.empty Map.empty)) =
     Fulfilled \<lparr>contract_ref = 0, contract_address = JStr ''0xT'', contract_abi = JStr ''abi''\<rparr>
   \<and> fst (getContract (stub_token False False)
         (fst (snd (getContract_then (stub_token False False) (Inr (JStr ''abi''))
            (stub_state Map.empty Map.empty))))) =
     Fulfilled \<lparr>contract_ref = 0, contract_address = JStr ''0xT'', contract_abi = JStr ''abi''\<rparr>
   \<and> fst (getContract_then (stub_token False False) (Inr (JStr ''abi''))
         (fst (snd (getContract_then (stub_token False False) (Inr (JStr ''abi''))
            (stub_state Map.empty Map.empty))))) =
     Fulfilled \<lparr>contract_ref = 1, contract_address = JStr ''0xT'', contract_abi = JStr ''abi''\<rparr>
   \<and> fst (getContract (stub_token False False)
         (fst (snd (getContract_then (stub_token False False) (Inr (JStr ''abi''))
           (fst (snd (getContract_then (stub_token False False) (Inr (JStr ''abi''))
              (stub_state Map.empty Map.empty)))))))) =
     Fulfilled \<lparr>contract_ref = 1, contract_address = JStr ''0xT'', contract_abi = JStr ''abi''\<rparr>"
  by (simp add: stub_defs getContract_def getContract_with_def getContract_start_def
      getContract_then_def getContract'_def)

text \<open>
  C9. The validator does not reject \<open>null\<close>: its \<open>typeof\<close> is "object" and it is not an
  array, so \<open>validateTxOption_(null)\<close> raises nothing, and none of the four operations
  throws on a \<open>null\<close> option.
\<close>

theorem null_option_not_rejected:
  "typeof JNull = ''object'' \<and> \<not> Array_isArray JNull \<and> validateTxOption' JNull = Inr ()
   \<and> fst (processWrite this meth JNull s) \<noteq> Thrown e
   \<and> fst (sendTransaction this JNull s) \<noteq> Thrown e
   \<and> fst (readTransaction this JNull s) \<noteq> Thrown e
   \<and> fst (processRead this meth JNull s) \<noteq> Thrown e"
  by (simp add: validateTxOption'_def default_option_def processWrite_alone sendTransaction_alone
      readTransaction_alone processRead_alone Let_def split: sum.splits prod.splits)

text \<open>
  On the stubbed token the build for \<open>null\<close> runs, and the promise is rejected only
  later, when \<open>option.returnTransaction\<close> is read.
\<close>

theorem null_option_not_rejected_witness:
  "validateTxOption' JNull = Inr ()
   \<and> fst (processWrite (stub_token False False) stub_method JNull
            (stub_state Map.empty Map.empty)) = Rejected TypeError
   \<and> fst (processWrite (stub_token False False) stub_method JNull
            (stub_state Map.empty Map.empty)) \<noteq> Thrown TransactionOptionNotObject"
  using null_option_not_rejected
    [of "stub_token False False" stub_method "stub_state Map.empty Map.empty"
        TransactionOptionNotObject]
  by (simp add: stub_defs build_defs op_defs)

text \<open>
  C10, as amended. In every write-mode build that the fee guard does not stop and whose
  merged config (caller over defaults) has no truthy \<open>gasPrice\<close>, \<open>getGasPrice\<close> is called
  exactly once, in the part of the build that runs before the \<open>await\<close>, whether or not
  the side supports the dynamic fee market. With support the resolved price is
  discarded: resuming the build writes no \<open>gasPrice\<close>, whatever the default record holds
  by then, so for a build that no other build overlaps the \<open>gasPrice\<close> field of the built
  config is that of the merged config.
\<close>

theorem getGasPrice_invoked_and_discarded:
  assumes "\<not> fee_guard this isParent (merged_txConfig isParent txConfig s)"
      and "\<not> truthy (getprop (merged_txConfig isParent txConfig s) ''gasPrice'')"
  shows "filter is_getGasPrice
           (snd (snd (createTransactionConfig this txConfig meth isParent True s))) =
           [CallGetGasPrice isParent]
       \<and> filter is_getGasPrice
           (snd (snd (createTransactionConfig_start this txConfig meth isParent True s))) =
           [CallGetGasPrice isParent]
       \<and> (isEIP1559Supported (client this) isParent \<longrightarrow>
          (\<forall>config. fst (createTransactionConfig this txConfig meth isParent True s) = Inr config
             \<longrightarrow> config ''gasPrice'' = merged_txConfig isParent txConfig s ''gasPrice'')
          \<and> (\<forall>pb s1 cs sr.
               createTransactionConfig_start this txConfig meth isParent True s =
                 (Awaiting pb, s1, cs)
               \<longrightarrow> defaultConfig_of isParent
                     (fst (snd (createTransactionConfig_resume this pb sr))) ''gasPrice'' =
                   defaultConfig_of isParent sr ''gasPrice''))"
proof -
  have "filter is_getGasPrice
          (snd (snd (createTransactionConfig this txConfig meth isParent True s))) =
        filter is_getGasPrice
          (resolution_calls (getClient this isParent) meth isParent
             (merged_txConfig isParent txConfig s))"
    by (rule build_write_filter [OF assms(1)]) simp_all
  then have calls: "filter is_getGasPrice
          (snd (snd (createTransactionConfig this txConfig meth isParent True s))) =
           [CallGetGasPrice isParent]"
    using assms(2) by (simp add: filter_getGasPrice_resolution)
  have "filter is_getGasPrice
          (snd (snd (createTransactionConfig_start this txConfig meth isParent True s))) =
        filter is_getGasPrice
          (resolution_calls (getClient this isParent) meth isParent
             (merged_txConfig isParent txConfig s))"
    using assms(1) by (simp add: createTransactionConfig_start_def Let_def getClient_def)
  then have first: "filter is_getGasPrice
          (snd (snd (createTransactionConfig_start this txConfig meth isParent True s))) =
           [CallGetGasPrice isParent]"
    using assms(2) by (simp add: filter_getGasPrice_resolution)
  have kept: "config ''gasPrice'' = merged_txConfig isParent txConfig s ''gasPrice''"
    if "isEIP1559Supported (client this) isParent"
      and "fst (createTransactionConfig this txConfig meth isParent True s) = Inr config"
    for config
    using build_write_config [OF that(2)] that(1)
    by (auto simp: fill_options_def Let_def)
  have unwritten: "defaultConfig_of isParent
                     (fst (snd (createTransactionConfig_resume this pb sr))) ''gasPrice'' =
                   defaultConfig_of isParent sr ''gasPrice''"
    if "isEIP1559Supported (client this) isParent"
      and "createTransactionConfig_start this txConfig meth isParent True s =
                 (Awaiting pb, s1, cs)"
    for pb s1 cs sr
  proof -
    from that(2) assms(1) have "pb_isParent pb = isParent" and "pb_isEIP1559 pb"
      using that(1) by (auto simp: createTransactionConfig_start_def Let_def)
    then show ?thesis
      by (cases isParent)
         (auto simp: createTransactionConfig_resume_def fill_options_def Let_def
            defaultConfig_of_def set_defaultConfig_def split: sum.splits)
  qed
  from calls first kept unwritten show ?thesis by blast
qed

text \<open>
  The spec's scenario: a Parent-side write of \<open>{from: "0xA", value: "0"}\<close> with support
  and the default fee pair 30 and 2. The gas price is asked for once and the built config
  has no \<open>gasPrice\<close> key. Resumed on a record in which another build has left
  \<open>gasPrice: 9\<close>, the build leaves that 9 where it is.
\<close>

theorem getGasPrice_invoked_and_discarded_witness:
  "\<not> fee_guard (stub_token True True) True
       (merged_txConfig True (JObj [''from'' \<mapsto> JStr ''0xA'', ''value'' \<mapsto> JStr ''0''])
          (stub_state [''maxFeePerGas'' \<mapsto> JNum 30, ''maxPriorityFeePerGas'' \<mapsto> JNum 2]
             Map.empty))
   \<and> \<not> truthy (getprop
       (merged_txConfig True (JObj [''from'' \<mapsto> JStr ''0xA'', ''value'' \<mapsto> JStr ''0''])
          (stub_state [''maxFeePerGas'' \<mapsto> JNum 30, ''maxPriorityFeePerGas'' \<mapsto> JNum 2]
             Map.empty)) ''gasPrice'')
   \<and> filter is_getGasPrice
       (snd (snd (createTransactionConfig (stub_token True True)
          (JObj [''from'' \<mapsto> JStr ''0xA'', ''value'' \<mapsto> JStr ''0'']) None True True
          (stub_state [''maxFeePerGas'' \<mapsto> JNum 30, ''maxPriorityFeePerGas'' \<mapsto> JNum 2]
             Map.empty)))) = [CallGetGasPrice True]
   \<and> isEIP1559Supported (client (stub_token True True)) True
   \<and> fst (createTransactionConfig (stub_token True True)
          (JObj [''from'' \<mapsto> JStr ''0xA'', ''value'' \<mapsto> JStr ''0'']) None True True
          (stub_state [''maxFeePerGas'' \<mapsto> JNum 30, ''maxPriorityFeePerGas'' \<mapsto> JNum 2]
             Map.empty)) =
     Inr [''maxFeePerGas'' \<mapsto> JNum 30, ''maxPriorityFeePerGas'' \<mapsto> JNum 2,
          ''from'' \<mapsto> JStr ''0xA'', ''value'' \<mapsto> JStr ''0'', ''gasLimit'' \<mapsto> JNum 21000,
          ''nonce'' \<mapsto> JNum 5, ''chainId'' \<mapsto> JNum 137]
   \<and> [''maxFeePerGas'' \<mapsto> JNum 30, ''maxPriorityFeePerGas'' \<mapsto> JNum 2,
       ''from'' \<mapsto> JStr ''0xA'', ''value'' \<mapsto> JStr ''0'', ''gasLimit'' \<mapsto> JNum 21000,
       ''nonce'' \<mapsto> JNum 5, ''chainId'' \<mapsto> JNum 137] ''gasPrice'' = None
   \<and> fst (createTransactionConfig_start (stub_token True True)
          (JObj [''from'' \<mapsto> JStr ''0xA'', ''value'' \<mapsto> JStr ''0'']) None True True
          (stub_state [''maxFeePerGas'' \<mapsto> JNum 30, ''maxPriorityFeePerGas'' \<mapsto> JNum 2]
             Map.empty)) =
     Awaiting \<lparr>pb_isParent = True, pb_isEIP1559 = True, pb_maxFeePerGas = JNum 30,
                pb_maxPriorityFeePerGas = JNum 2,
                pb_settled = Inr (JNum 21000, JNum 1000, JNum 5, JNum 137)\<rparr>
   \<and> defaultConfig_of True
        (fst (snd (createTransactionConfig_resume (stub_token True True)
           \<lparr>pb_isParent = True, pb_isEIP1559 = True, pb_maxFeePerGas = JNum 30,
            pb_maxPriorityFeePerGas = JNum 2,
            pb_settled = Inr (JNum 21000, JNum 1000, JNum 5, JNum 137)\<rparr>
           (stub_state [''from'' \<mapsto> JStr ''0xB'', ''gasPrice'' \<mapsto> JNum 9] Map.empty))))
        ''gasPrice'' = Some (JNum 9)"
  using getGasPrice_invoked_and_discarded
    [of "stub_token True True" True
        "JObj [''from'' \<mapsto> JStr ''0xA'', ''value'' \<mapsto> JStr ''0'']"
        "stub_state [''maxFeePerGas'' \<mapsto> JNum 30, ''maxPriorityFeePerGas'' \<mapsto> JNum 2] Map.empty"
        None]
  apply (simp add: stub_defs build_defs createTransactionConfig_start_def
      createTransactionConfig_resume_def)
  apply (auto simp: fun_eq_iff)
  done

text \<open>
  The claim as stated fails twice, the caller leaving the gas price out both times. On
  a Parent side with support whose defaults carry a gas price, \<open>getGasPrice\<close> is not
  called. On a Child side with support and a dynamic fee field supplied, the fee guard
  rejects the build before any resolution.
\<close>

theorem getGasPrice_not_invoked:
  "filter is_getGasPrice
       (snd (snd (createTransactionConfig (stub_token True True)
          (JObj [''from'' \<mapsto> JStr ''0xA'']) None True True
          (stub_state [''gasPrice'' \<mapsto> JNum 7] Map.empty)))) = []
   \<and> createTransactionConfig (stub_token False True)
          (JObj [''from'' \<mapsto> JStr ''0xA'', ''maxFeePerGas'' \<mapsto> JNum 30]) None False True
          (stub_state Map.empty Map.empty) =
       (Inl ChildChainNoEIP1559,
        stub_state Map.empty [''from'' \<mapsto> JStr ''0xA'', ''maxFeePerGas'' \<mapsto> JNum 30],
        [CallLog ''txConfig'', CallIsEIP1559Supported False])"
  by (simp add: stub_defs build_defs)

end
